theory Spec2Isabelle
  imports Complex_Main "HOL-Library.AList"
begin

unbundle bit_operations_syntax

text \<open>
  A shallow embedding of \<open>temperature_analyzer.py\<close>: the fingerprint of the query
  parameters (\<open>_generate_cache_key\<close>), the retrieval of the point data
  (\<open>get_point_data\<close>, \<open>get_point_data_cached\<close>) against a remote gateway taken as a
  parameter, and the construction of the table with the ensemble statistics
  (\<open>format_data_for_plotting\<close>).  The library functions the methods call
  (\<open>json.dumps\<close>, \<open>hashlib.md5\<close>, \<open>json.loads\<close>, \<open>lru_cache\<close>, the pandas operations
  on a frame) are modelled as far as the methods use them.
\<close>

section \<open>Python values, errors and the analyzer object\<close>

text \<open>
  Exceptions of the Python source are values: every function that can raise returns
  \<open>py_error + 'a\<close>, with \<open>Inl\<close> for the exception.  \<open>EEException\<close> is the exception
  of the Earth Engine client: a remote query (\<open>getInfo\<close>) that fails, or an argument
  the client rejects.
\<close>

datatype py_error =
  JSONDecodeError | TypeError | KeyError | ValueError | RecursionError | EEException

text \<open>
  A Python float is modelled by the real number it denotes; a float cell that may be
  NaN (a cell of a pandas float64 column) is a \<open>real option\<close>, \<open>None\<close> being NaN.
  IEEE rounding is not part of the model.
\<close>

type_synonym cell = "real option"

text \<open>\<open>TemperatureAnalyzer.__init__\<close>: the fields set by the constructor.\<close>

record analyzer =
  start_year :: int
  end_year :: int
  scenario :: string
  historical_cutoff :: int
  cmip6_transition :: int

definition TemperatureAnalyzer :: "int \<Rightarrow> int \<Rightarrow> string \<Rightarrow> analyzer" where
  "TemperatureAnalyzer sy ey sc =
     \<lparr>start_year = sy, end_year = ey, scenario = sc,
      historical_cutoff = 2022, cmip6_transition = 2015\<rparr>"

section \<open>\<open>json.dumps\<close> of the key parameters\<close>

text \<open>
  Decimal digits of a natural number, as \<open>repr\<close> of a Python \<open>int\<close> writes them.
\<close>

definition digit_char :: "nat \<Rightarrow> char" where
  "digit_char d = ''0123456789'' ! d"

function digits :: "nat \<Rightarrow> string" where
  "digits n = (if n < 10 then [digit_char n] else digits (n div 10) @ [digit_char (n mod 10)])"
  by pat_completeness auto
termination
  by (relation "measure id") auto

declare digits.simps [simp del]

definition int_repr :: "int \<Rightarrow> string" where
  "int_repr i = (if i < 0 then CHR ''-'' # digits (nat (- i)) else digits (nat i))"

text \<open>
  \<open>round(x, 4)\<close> on a float: the decimal with four places nearest to the exact
  value of \<open>x\<close>, ties to the even digit, keeping the sign of \<open>x\<close> (so a small negative
  \<open>x\<close> gives \<open>-0.0\<close>).  The result is kept as its sign and its number of
  ten-thousandths.  This and \<open>float_repr\<close> describe Python for coordinates, where
  the rounded value has at most 15 significant digits (any \<open>|x| < 10^11\<close>).
\<close>

record rounded =
  negative :: bool
  ten_thousandths :: nat

definition round_half_even :: "real \<Rightarrow> nat" where
  "round_half_even y =
     (let f = nat \<lfloor>y\<rfloor>; d = y - of_int \<lfloor>y\<rfloor>
      in if d < 1 / 2 then f else if 1 / 2 < d then f + 1 else if even f then f else f + 1)"

definition round4 :: "real \<Rightarrow> rounded" where
  "round4 x = \<lparr>negative = (x < 0), ten_thousandths = round_half_even (\<bar>x\<bar> * 10000)\<rparr>"

text \<open>
  \<open>repr\<close> of the rounded float, as \<open>json.dumps\<close> writes it: the integer part, a
  point, and the four decimals without trailing zeros (at least one digit).
\<close>

fun strip_zeros :: "string \<Rightarrow> string" where
  "strip_zeros [] = []"
| "strip_zeros (c # cs) =
     (let r = strip_zeros cs in if r = [] \<and> c = CHR ''0'' then [] else c # r)"

definition float_repr :: "rounded \<Rightarrow> string" where
  "float_repr r =
     (let k = ten_thousandths r; frac = k mod 10000;
          ds = [digit_char (frac div 1000), digit_char (frac div 100 mod 10),
                digit_char (frac div 10 mod 10), digit_char (frac mod 10)];
          fs = strip_zeros ds
      in (if negative r then ''-'' else []) @ digits (k div 10000) @ ''.''
           @ (if fs = [] then ''0'' else fs))"

text \<open>
  A string value as \<open>json.dumps\<close> writes it (\<open>ensure_ascii=True\<close>): quotes and
  backslashes are escaped, the control characters have their short escapes or
  \<open>\u00XX\<close>, and every character outside the printable ASCII range is \<open>\u00XX\<close>
  (a \<open>char\<close> is a code point below 256).
\<close>

definition hex_digit :: "nat \<Rightarrow> char" where
  "hex_digit n = ''0123456789abcdef'' ! n"

definition escape_char :: "char \<Rightarrow> string" where
  "escape_char c =
     (if c = CHR 0x22 then [CHR 0x5C, CHR 0x22]
      else if c = CHR 0x5C then [CHR 0x5C, CHR 0x5C]
      else if c = CHR 0x0A then [CHR 0x5C, CHR ''n'']
      else if c = CHR 0x0D then [CHR 0x5C, CHR ''r'']
      else if c = CHR 0x09 then [CHR 0x5C, CHR ''t'']
      else if c = CHR 0x08 then [CHR 0x5C, CHR ''b'']
      else if c = CHR 0x0C then [CHR 0x5C, CHR ''f'']
      else if (of_char c :: nat) < 32 \<or> 126 < (of_char c :: nat)
        then [CHR 0x5C, CHR ''u'', CHR ''0'', CHR ''0'',
              hex_digit (of_char c div 16), hex_digit (of_char c mod 16)]
      else [c])"

definition json_string :: "string \<Rightarrow> string" where
  "json_string s = [CHR 0x22] @ concat (map escape_char s) @ [CHR 0x22]"

text \<open>
  \<open>json.dumps(params, sort_keys=True)\<close> for the dictionary with the keys \<open>lat\<close>,
  \<open>lon\<close> and the keyword arguments \<open>start_year\<close>, \<open>end_year\<close>, \<open>scenario\<close> that both
  callers pass: the keys in alphabetical order, separated by \<open>", "\<close> and \<open>": "\<close>.
\<close>

definition json_dumps_params :: "rounded \<Rightarrow> rounded \<Rightarrow> int \<Rightarrow> int \<Rightarrow> string \<Rightarrow> string" where
  "json_dumps_params lat lon sy ey sc =
     ''{'' @ json_string ''end_year'' @ '': '' @ int_repr ey @ '', ''
       @ json_string ''lat'' @ '': '' @ float_repr lat @ '', ''
       @ json_string ''lon'' @ '': '' @ float_repr lon @ '', ''
       @ json_string ''scenario'' @ '': '' @ json_string sc @ '', ''
       @ json_string ''start_year'' @ '': '' @ int_repr sy @ ''}''"

section \<open>MD5 (\<open>hashlib.md5\<close>)\<close>

text \<open>
  The digest of RFC 1321 on a list of bytes; 32-bit words are natural numbers below
  \<open>2^32\<close>, with the wrap-around written out.  Each entry of a round table is the
  index of the message word, the rotation and the additive constant of one step.
\<close>

type_synonym md5_state = "nat \<times> nat \<times> nat \<times> nat"

definition add32 :: "nat \<Rightarrow> nat \<Rightarrow> nat" where
  "add32 x y = (x + y) mod 4294967296"

definition not32 :: "nat \<Rightarrow> nat" where
  "not32 x = 4294967295 - x"

definition rotl32 :: "nat \<Rightarrow> nat \<Rightarrow> nat" where
  "rotl32 x s = (x * 2 ^ s) mod 4294967296 + x div 2 ^ (32 - s)"

definition md5_F :: "nat \<Rightarrow> nat \<Rightarrow> nat \<Rightarrow> nat" where
  "md5_F b c d = (b AND c) OR (not32 b AND d)"

definition md5_G :: "nat \<Rightarrow> nat \<Rightarrow> nat \<Rightarrow> nat" where
  "md5_G b c d = (d AND b) OR (not32 d AND c)"

definition md5_H :: "nat \<Rightarrow> nat \<Rightarrow> nat \<Rightarrow> nat" where
  "md5_H b c d = b XOR c XOR d"

definition md5_I :: "nat \<Rightarrow> nat \<Rightarrow> nat \<Rightarrow> nat" where
  "md5_I b c d = c XOR (b OR not32 d)"

definition md5_round1 :: "(nat \<times> nat \<times> nat) list" where
  "md5_round1 =
     [(0, 7, 3614090360), (1, 12, 3905402710), (2, 17, 606105819), (3, 22, 3250441966),
      (4, 7, 4118548399), (5, 12, 1200080426), (6, 17, 2821735955), (7, 22, 4249261313),
      (8, 7, 1770035416), (9, 12, 2336552879), (10, 17, 4294925233), (11, 22, 2304563134),
      (12, 7, 1804603682), (13, 12, 4254626195), (14, 17, 2792965006), (15, 22, 1236535329)]"

definition md5_round2 :: "(nat \<times> nat \<times> nat) list" where
  "md5_round2 =
     [(1, 5, 4129170786), (6, 9, 3225465664), (11, 14, 643717713), (0, 20, 3921069994),
      (5, 5, 3593408605), (10, 9, 38016083), (15, 14, 3634488961), (4, 20, 3889429448),
      (9, 5, 568446438), (14, 9, 3275163606), (3, 14, 4107603335), (8, 20, 1163531501),
      (13, 5, 2850285829), (2, 9, 4243563512), (7, 14, 1735328473), (12, 20, 2368359562)]"

definition md5_round3 :: "(nat \<times> nat \<times> nat) list" where
  "md5_round3 =
     [(5, 4, 4294588738), (8, 11, 2272392833), (11, 16, 1839030562), (14, 23, 4259657740),
      (1, 4, 2763975236), (4, 11, 1272893353), (7, 16, 4139469664), (10, 23, 3200236656),
      (13, 4, 681279174), (0, 11, 3936430074), (3, 16, 3572445317), (6, 23, 76029189),
      (9, 4, 3654602809), (12, 11, 3873151461), (15, 16, 530742520), (2, 23, 3299628645)]"

definition md5_round4 :: "(nat \<times> nat \<times> nat) list" where
  "md5_round4 =
     [(0, 6, 4096336452), (7, 10, 1126891415), (14, 15, 2878612391), (5, 21, 4237533241),
      (12, 6, 1700485571), (3, 10, 2399980690), (10, 15, 4293915773), (1, 21, 2240044497),
      (8, 6, 1873313359), (15, 10, 4264355552), (6, 15, 2734768916), (13, 21, 1309151649),
      (4, 6, 4149444226), (11, 10, 3174756917), (2, 15, 718787259), (9, 21, 3951481745)]"

fun md5_steps ::
  "(nat \<Rightarrow> nat \<Rightarrow> nat \<Rightarrow> nat) \<Rightarrow> nat list \<Rightarrow> (nat \<times> nat \<times> nat) list
     \<Rightarrow> md5_state \<Rightarrow> md5_state" where
  "md5_steps f m [] st = st"
| "md5_steps f m ((g, s, k) # rest) (a, b, c, d) =
     md5_steps f m rest
       (d, add32 b (rotl32 (add32 (add32 (add32 (f b c d) a) k) (m ! g)) s), b, c)"

fun md5_words :: "nat list \<Rightarrow> nat list" where
  "md5_words (b0 # b1 # b2 # b3 # rest) =
     (b0 + 256 * b1 + 65536 * b2 + 16777216 * b3) # md5_words rest"
| "md5_words rest = []"

fun md5_block :: "md5_state \<Rightarrow> nat list \<Rightarrow> md5_state" where
  "md5_block (a0, b0, c0, d0) block =
     (let m = md5_words block;
          (a, b, c, d) = md5_steps md5_I m md5_round4
                           (md5_steps md5_H m md5_round3
                             (md5_steps md5_G m md5_round2
                               (md5_steps md5_F m md5_round1 (a0, b0, c0, d0))))
      in (add32 a0 a, add32 b0 b, add32 c0 c, add32 d0 d))"

fun md5_blocks :: "nat \<Rightarrow> md5_state \<Rightarrow> nat list \<Rightarrow> md5_state" where
  "md5_blocks 0 st bs = st"
| "md5_blocks (Suc n) st bs = md5_blocks n (md5_block st (take 64 bs)) (drop 64 bs)"

fun le_bytes :: "nat \<Rightarrow> nat \<Rightarrow> nat list" where
  "le_bytes 0 v = []"
| "le_bytes (Suc n) v = v mod 256 # le_bytes n (v div 256)"

definition md5_pad :: "nat list \<Rightarrow> nat list" where
  "md5_pad msg =
     msg @ [128] @ replicate ((119 - length msg mod 64) mod 64) 0
       @ le_bytes 8 ((8 * length msg) mod 2 ^ 64)"

definition md5 :: "nat list \<Rightarrow> nat list" where
  "md5 msg =
     (let p = md5_pad msg;
          (a, b, c, d) = md5_blocks (length p div 64)
                           (1732584193, 4023233417, 2562383102, 271733878) p
      in le_bytes 4 a @ le_bytes 4 b @ le_bytes 4 c @ le_bytes 4 d)"

definition hexdigest :: "nat list \<Rightarrow> string" where
  "hexdigest bs = concat (map (\<lambda>b. [hex_digit (b div 16), hex_digit (b mod 16)]) bs)"

text \<open>
  \<open>_generate_cache_key\<close>: the MD5 hex digest of the encoded JSON text (the text is
  ASCII, so its UTF-8 encoding is its list of character codes).
\<close>

definition generate_cache_key :: "real \<Rightarrow> real \<Rightarrow> int \<Rightarrow> int \<Rightarrow> string \<Rightarrow> string" where
  "generate_cache_key lat lon sy ey sc =
     (let key = json_dumps_params (round4 lat) (round4 lon) sy ey sc
      in hexdigest (md5 (map of_char key)))"

section \<open>Earth Engine expressions and the remote gateway\<close>

text \<open>
  The \<open>ee\<close> client builds expressions locally; nothing is sent to the service until
  \<open>getInfo\<close> is called.  The expressions the analyzer builds are kept as terms.
\<close>

datatype ee_date = fromYMD int int int

datatype ee_geometry = Point real real

datatype ee_filter = Filter_eq string string

datatype ee_collection =
    ImageCollection string
  | Select ee_collection string
  | Filter ee_collection ee_filter
  | FilterDate ee_collection ee_date ee_date
  | FilterBounds ee_collection ee_geometry

text \<open>
  The two kinds of list expression the analyzer asks the value of:
  \<open>collection.map(monthly_reducer).aggregate_array('temperature')\<close> and
  \<open>collection.distinct('model').aggregate_array('model')\<close>.
\<close>

datatype ee_temperatures = Temperature_array ee_collection ee_geometry string

datatype ee_models = Model_array ee_collection

text \<open>
  The remote service is a parameter: for a collection, a point and a band it gives the
  raw band value (Kelvin) of every image reduced at the point
  (\<open>image.reduceRegion(ee.Reducer.mean(), point, 25000).get(band_name)\<close>), and for a
  collection the values of its \<open>model\<close> property.  Either query may fail.
\<close>

record gateway =
  reduce_region :: "ee_collection \<Rightarrow> ee_geometry \<Rightarrow> string \<Rightarrow> py_error + real list"
  distinct_models :: "ee_collection \<Rightarrow> py_error + string list"

text \<open>\<open>_init_datasets\<close>: the pre-filtered collections.\<close>

definition gldas :: ee_collection where
  "gldas = ImageCollection ''NASA/GLDAS/V021/NOAH/G025/T3H''"

definition cmip6 :: ee_collection where
  "cmip6 = ImageCollection ''NASA/GDDP-CMIP6''"

definition start_date :: "analyzer \<Rightarrow> ee_date" where
  "start_date a = fromYMD (start_year a) 1 1"

definition end_date :: "analyzer \<Rightarrow> ee_date" where
  "end_date a = fromYMD (end_year a) 12 31"

definition historical_end :: "analyzer \<Rightarrow> ee_date" where
  "historical_end a = fromYMD (min (historical_cutoff a) (end_year a)) 12 31"

definition filtered_gldas :: "analyzer \<Rightarrow> ee_collection" where
  "filtered_gldas a = FilterDate (Select gldas ''Tair_f_inst'') (start_date a) (historical_end a)"

definition filtered_cmip6 :: "analyzer \<Rightarrow> ee_collection" where
  "filtered_cmip6 a =
     FilterDate (Filter (Select cmip6 ''tas'') (Filter_eq ''scenario'' (scenario a)))
       (start_date a) (end_date a)"

text \<open>
  \<open>_calculate_monthly_average\<close>.  \<open>monthly_reducer\<close> is the function mapped over the
  images: it takes the reduced band value of one image and subtracts 273.15.  The
  \<open>lru_cache\<close> on \<open>_calculate_monthly_average\<close> memoises the expression object only
  (no remote query is involved in building it), so it is not part of the state.
\<close>

definition monthly_reducer :: "real \<Rightarrow> real" where
  "monthly_reducer v = v - 273.15"

definition calculate_monthly_average ::
  "ee_collection \<Rightarrow> ee_geometry \<Rightarrow> string \<Rightarrow> ee_temperatures" where
  "calculate_monthly_average collection point band_name =
     Temperature_array collection point band_name"

section \<open>Remote queries and the returned data\<close>

text \<open>
  The methods of the analyzer pass a counter through: the number of remote queries
  issued so far (every \<open>getInfo\<close> is one).  The \<open>lru_cache\<close> stores of the cached
  methods are passed in the same way.
\<close>

record metadata =
  md_lat :: real
  md_lon :: real
  md_scenario :: string
  md_models :: "string list"

record point_data =
  pd_gldas :: "cell list"
  pd_cmip6_models :: "(string \<times> cell list) list"
  pd_metadata :: metadata

record dataframe =
  date :: "(int \<times> nat) list"
  columns :: "(string \<times> cell list) list"

text \<open>
  \<open>getInfo\<close> on a temperature list: one remote query; the service evaluates the
  mapped \<open>monthly_reducer\<close> on every image of the collection.
\<close>

definition getInfo :: "gateway \<Rightarrow> ee_temperatures \<Rightarrow> nat \<Rightarrow> (py_error + cell list) \<times> nat" where
  "getInfo gw e n =
     (case e of Temperature_array collection point band_name \<Rightarrow>
        (case reduce_region gw collection point band_name of
           Inl err \<Rightarrow> (Inl err, Suc n)
         | Inr raw \<Rightarrow> (Inr (map (\<lambda>v. Some (monthly_reducer v)) raw), Suc n)))"

definition getInfo_models :: "gateway \<Rightarrow> ee_models \<Rightarrow> nat \<Rightarrow> (py_error + string list) \<times> nat" where
  "getInfo_models gw e n =
     (case e of Model_array collection \<Rightarrow> (distinct_models gw collection, Suc n))"

section \<open>\<open>get_point_data\<close>\<close>

text \<open>
  A Python \<open>dict\<close> is an association list in insertion order; \<open>d[k] = v\<close> is
  \<open>AList.update k v d\<close> (an existing key keeps its place, a new one is appended).
  The loop \<open>for model in models: cmip6_by_model[model] = ...\<close>:
\<close>

definition cmip6_by_model ::
  "analyzer \<Rightarrow> ee_geometry \<Rightarrow> string list \<Rightarrow> (string \<times> ee_temperatures) list" where
  "cmip6_by_model a point models =
     foldl (\<lambda>d model.
        AList.update model
          (calculate_monthly_average
             (FilterBounds (Filter (filtered_cmip6 a) (Filter_eq ''model'' model)) point)
             point ''tas'') d)
       [] models"

text \<open>
  The comprehension \<open>{model: data.getInfo() for model, data in cmip6_by_model.items()}\<close>:
  one remote query per entry, in order; the first failure propagates.
\<close>

fun getInfo_items ::
  "gateway \<Rightarrow> (string \<times> ee_temperatures) list \<Rightarrow> nat
     \<Rightarrow> (py_error + (string \<times> cell list) list) \<times> nat" where
  "getInfo_items gw [] n = (Inr [], n)"
| "getInfo_items gw ((model, data) # rest) n =
     (case getInfo gw data n of
        (Inl err, n') \<Rightarrow> (Inl err, n')
      | (Inr v, n') \<Rightarrow>
          (case getInfo_items gw rest n' of
             (Inl err, n'') \<Rightarrow> (Inl err, n'')
           | (Inr vs, n'') \<Rightarrow> (Inr ((model, v) # vs), n'')))"

text \<open>
  \<open>get_point_data\<close>, with the counter of remote queries passed through.  The method
  computes \<open>cache_key\<close> first and never reads it again.  The remote queries are, in
  order: the model list, the GLDAS series, one series per model.
\<close>

definition get_point_data ::
  "analyzer \<Rightarrow> gateway \<Rightarrow> real \<Rightarrow> real \<Rightarrow> nat \<Rightarrow> (py_error + point_data) \<times> nat" where
  "get_point_data a gw lat lon n =
     (let cache_key = generate_cache_key lat lon (start_year a) (end_year a) (scenario a);
          point = Point lon lat;
          gldas_data = FilterBounds (filtered_gldas a) point;
          gldas_monthly = calculate_monthly_average gldas_data point ''Tair_f_inst''
      in case getInfo_models gw (Model_array (filtered_cmip6 a)) n of
           (Inl err, n1) \<Rightarrow> (Inl err, n1)
         | (Inr models, n1) \<Rightarrow>
             (let by_model = cmip6_by_model a point models
              in case getInfo gw gldas_monthly n1 of
                   (Inl err, n2) \<Rightarrow> (Inl err, n2)
                 | (Inr g, n2) \<Rightarrow>
                     (case getInfo_items gw by_model n2 of
                        (Inl err, n3) \<Rightarrow> (Inl err, n3)
                      | (Inr ms, n3) \<Rightarrow>
                          (Inr \<lparr>pd_gldas = g, pd_cmip6_models = ms,
                                pd_metadata = \<lparr>md_lat = lat, md_lon = lon,
                                   md_scenario = scenario a, md_models = models\<rparr>\<rparr>, n3))))"

section \<open>\<open>json.loads\<close>\<close>

text \<open>
  The values \<open>json.loads\<close> returns.  A decoded string is its list of code points
  (a \<open>\uXXXX\<close> escape can denote any); \<open>JFloat m e\<close> is the float written
  \<open>m * 10^e\<close>; an object is the \<open>dict\<close> built from its pairs (a repeated key keeps
  its first place and its last value).
\<close>

datatype json =
    JNull
  | JBool bool
  | JInt int
  | JFloat int int
  | JNaN
  | JInfinity bool
  | JString "nat list"
  | JArray "json list"
  | JObject "(nat list \<times> json) list"

definition is_ws :: "char \<Rightarrow> bool" where
  "is_ws c = (c = CHR '' '' \<or> c = CHR 0x09 \<or> c = CHR 0x0A \<or> c = CHR 0x0D)"

definition skip_ws :: "string \<Rightarrow> string" where
  "skip_ws s = dropWhile is_ws s"

definition is_digit :: "char \<Rightarrow> bool" where
  "is_digit c = (c \<in> set ''0123456789'')"

definition nat_of_digits :: "string \<Rightarrow> nat" where
  "nat_of_digits ds = foldl (\<lambda>a c. 10 * a + (of_char c - 48)) 0 ds"

text \<open>
  The number pattern of the scanner,
  \<open>(-?(?:0|[1-9]\d*))(\.\d+)?([eE][-+]?\d+)?\<close>, matched at the start of the text:
  the value and the rest of the text, or \<open>None\<close> when there is no match.  Without
  fraction and exponent the value is an \<open>int\<close>.
\<close>

definition number_value :: "bool \<Rightarrow> string \<Rightarrow> string \<Rightarrow> string \<Rightarrow> string \<Rightarrow> json" where
  "number_value neg ip fr esign ex =
     (let sgn = (if neg then - 1 else 1)
      in if fr = [] \<and> ex = [] then JInt (sgn * int (nat_of_digits ip))
         else JFloat (sgn * int (nat_of_digits (ip @ fr)))
                ((if esign = ''-'' then - 1 else 1) * int (nat_of_digits ex) - int (length fr)))"

definition match_number :: "string \<Rightarrow> (json \<times> string) option" where
  "match_number s =
     (let neg = (take 1 s = ''-'');
          s1 = (if neg then drop 1 s else s);
          ip = (if take 1 s1 = ''0'' then ''0'' else takeWhile is_digit s1)
      in if ip = [] then None
         else
           (let r1 = drop (length ip) s1;
                fr = (if take 1 r1 = ''.'' then takeWhile is_digit (drop 1 r1) else []);
                r2 = (if fr = [] then r1 else drop (Suc (length fr)) r1);
                has_e = (take 1 r2 = ''e'' \<or> take 1 r2 = ''E'');
                r3 = (if has_e then drop 1 r2 else r2);
                esign = (if has_e \<and> (take 1 r3 = ''-'' \<or> take 1 r3 = ''+'') then take 1 r3 else []);
                r4 = drop (length esign) r3;
                ex = (if has_e then takeWhile is_digit r4 else []);
                r5 = (if ex = [] then r2 else drop (length ex) r4)
            in Some (number_value neg ip fr esign ex, r5)))"

text \<open>
  \<open>scanstring\<close> (strict), on the text after the opening quote: the decoded string and
  the text after the closing quote; \<open>None\<close> is \<open>JSONDecodeError\<close>.
\<close>

definition hex_value :: "char \<Rightarrow> nat option" where
  "hex_value c =
     (if c \<in> set ''0123456789'' then Some (of_char c - 48)
      else if c \<in> set ''abcdef'' then Some (of_char c - 87)
      else if c \<in> set ''ABCDEF'' then Some (of_char c - 55)
      else None)"

definition decode_uXXXX :: "string \<Rightarrow> nat option" where
  "decode_uXXXX s =
     (case map hex_value (take 4 s) of
        [Some a, Some b, Some c, Some d] \<Rightarrow> Some (4096 * a + 256 * b + 16 * c + d)
      | _ \<Rightarrow> None)"

definition backslash :: "char \<Rightarrow> nat option" where
  "backslash c =
     (if c = CHR 0x22 then Some 34 else if c = CHR 0x5C then Some 92
      else if c = CHR ''/'' then Some 47 else if c = CHR ''b'' then Some 8
      else if c = CHR ''f'' then Some 12 else if c = CHR ''n'' then Some 10
      else if c = CHR ''r'' then Some 13 else if c = CHR ''t'' then Some 9
      else None)"

fun scanstring :: "string \<Rightarrow> (nat list \<times> string) option" where
  "scanstring [] = None"
| "scanstring (c # cs) =
     (if c = CHR 0x22 then Some ([], cs)
      else if c = CHR 0x5C then
        (case cs of
           [] \<Rightarrow> None
         | e # r \<Rightarrow>
             if e = CHR ''u'' then
               (case decode_uXXXX r of
                  None \<Rightarrow> None
                | Some uni \<Rightarrow>
                    if 55296 \<le> uni \<and> uni \<le> 56319 \<and> take 2 (drop 4 r) = [CHR 0x5C, CHR ''u''] then
                      (case decode_uXXXX (drop 6 r) of
                         None \<Rightarrow> None
                       | Some uni2 \<Rightarrow>
                           if 56320 \<le> uni2 \<and> uni2 \<le> 57343 then
                             map_option (\<lambda>(str, rest).
                                 ((65536 + ((uni - 55296) * 1024 + (uni2 - 56320))) # str, rest))
                               (scanstring (drop 10 r))
                           else map_option (\<lambda>(str, rest). (uni # str, rest)) (scanstring (drop 4 r)))
                    else map_option (\<lambda>(str, rest). (uni # str, rest)) (scanstring (drop 4 r)))
             else
               (case backslash e of
                  None \<Rightarrow> None
                | Some ch \<Rightarrow> map_option (\<lambda>(str, rest). (ch # str, rest)) (scanstring r)))
      else if (of_char c :: nat) < 32 then None
      else map_option (\<lambda>(str, rest). (of_char c # str, rest)) (scanstring cs))"

text \<open>
  The scanner: \<open>scan_once\<close> dispatches on the first character, \<open>parse_array\<close> and
  \<open>parse_object\<close> read the items of an array and the pairs of an object.  The first
  argument bounds the depth of the calls; \<open>json_loads\<close> starts with more than any
  text needs, so that \<open>RecursionError\<close> is not raised below (Python's own recursion
  limit, reached by some thousand nested brackets, is not modelled).
\<close>

fun scan_once :: "nat \<Rightarrow> string \<Rightarrow> py_error + (json \<times> string)"
  and parse_array :: "nat \<Rightarrow> json list \<Rightarrow> string \<Rightarrow> py_error + (json \<times> string)"
  and parse_object :: "nat \<Rightarrow> (nat list \<times> json) list \<Rightarrow> string \<Rightarrow> py_error + (json \<times> string)"
where
  "scan_once 0 s = Inl RecursionError"
| "scan_once (Suc n) s =
     (case s of
        [] \<Rightarrow> Inl JSONDecodeError
      | c # r \<Rightarrow>
          if c = CHR 0x22 then
            (case scanstring r of
               None \<Rightarrow> Inl JSONDecodeError
             | Some (str, rest) \<Rightarrow> Inr (JString str, rest))
          else if c = CHR ''{'' then
            (case skip_ws r of
               [] \<Rightarrow> Inl JSONDecodeError
             | c' # r' \<Rightarrow>
                 if c' = CHR ''}'' then Inr (JObject [], r')
                 else if c' = CHR 0x22 then parse_object n [] (c' # r')
                 else Inl JSONDecodeError)
          else if c = CHR ''['' then
            (case skip_ws r of
               [] \<Rightarrow> Inl JSONDecodeError
             | c' # r' \<Rightarrow>
                 if c' = CHR '']'' then Inr (JArray [], r')
                 else parse_array n [] (c' # r'))
          else if take 4 s = ''null'' then Inr (JNull, drop 4 s)
          else if take 4 s = ''true'' then Inr (JBool True, drop 4 s)
          else if take 5 s = ''false'' then Inr (JBool False, drop 5 s)
          else
            (case match_number s of
               Some res \<Rightarrow> Inr res
             | None \<Rightarrow>
                 if take 3 s = ''NaN'' then Inr (JNaN, drop 3 s)
                 else if take 8 s = ''Infinity'' then Inr (JInfinity False, drop 8 s)
                 else if take 9 s = ''-Infinity'' then Inr (JInfinity True, drop 9 s)
                 else Inl JSONDecodeError))"
| "parse_array 0 values s = Inl RecursionError"
| "parse_array (Suc n) values s =
     (case scan_once n s of
        Inl err \<Rightarrow> Inl err
      | Inr (v, rest) \<Rightarrow>
          (case skip_ws rest of
             [] \<Rightarrow> Inl JSONDecodeError
           | c # r \<Rightarrow>
               if c = CHR '']'' then Inr (JArray (values @ [v]), r)
               else if c = CHR '','' then parse_array n (values @ [v]) (skip_ws r)
               else Inl JSONDecodeError))"
| "parse_object 0 pairs s = Inl RecursionError"
| "parse_object (Suc n) pairs s =
     (case s of
        [] \<Rightarrow> Inl JSONDecodeError
      | q # r \<Rightarrow>
          if q \<noteq> CHR 0x22 then Inl JSONDecodeError
          else
            (case scanstring r of
               None \<Rightarrow> Inl JSONDecodeError
             | Some (key, rest) \<Rightarrow>
                 (case skip_ws rest of
                    [] \<Rightarrow> Inl JSONDecodeError
                  | c # r1 \<Rightarrow>
                      if c \<noteq> CHR '':'' then Inl JSONDecodeError
                      else
                        (case scan_once n (skip_ws r1) of
                           Inl err \<Rightarrow> Inl err
                         | Inr (v, rest') \<Rightarrow>
                             (case skip_ws rest' of
                                [] \<Rightarrow> Inl JSONDecodeError
                              | c' # r2 \<Rightarrow>
                                  if c' = CHR ''}'' then Inr (JObject (AList.update key v pairs), r2)
                                  else if c' = CHR '','' then
                                    parse_object n (AList.update key v pairs) (skip_ws r2)
                                  else Inl JSONDecodeError)))))"

definition json_loads :: "string \<Rightarrow> py_error + json" where
  "json_loads s =
     (case scan_once (2 * length s + 2) (skip_ws s) of
        Inl err \<Rightarrow> Inl err
      | Inr (v, rest) \<Rightarrow> if skip_ws rest = [] then Inr v else Inl JSONDecodeError)"

section \<open>\<open>get_point_data_cached\<close>\<close>

text \<open>
  \<open>params[key]\<close> on a decoded document: a \<open>dict\<close> gives the value or \<open>KeyError\<close>;
  every other value (a number, a string, a list, \<open>None\<close>, a boolean) raises
  \<open>TypeError\<close> for a string key.
\<close>

definition subscript :: "json \<Rightarrow> string \<Rightarrow> py_error + json" where
  "subscript v key =
     (case v of
        JObject pairs \<Rightarrow>
          (case map_of pairs (map of_char key) of None \<Rightarrow> Inl KeyError | Some x \<Rightarrow> Inr x)
      | _ \<Rightarrow> Inl TypeError)"

text \<open>
  \<open>ee.Geometry.Point(params['lon'], params['lat'])\<close>: two numbers make a point; the
  client library rejects anything else (\<open>EEException\<close>).
\<close>

definition coordinate :: "json \<Rightarrow> real option" where
  "coordinate v =
     (case v of
        JInt i \<Rightarrow> Some (of_int i)
      | JFloat m e \<Rightarrow> Some (of_int m * 10 powr of_int e)
      | _ \<Rightarrow> None)"

definition Geometry_Point :: "json \<Rightarrow> json \<Rightarrow> py_error + ee_geometry" where
  "Geometry_Point lon lat =
     (case (coordinate lon, coordinate lat) of
        (Some x, Some y) \<Rightarrow> Inr (Point x y)
      | _ \<Rightarrow> Inl EEException)"

record cached_metadata =
  cm_lat :: json
  cm_lon :: json
  cm_scenario :: string

record cached_point_data =
  cp_gldas :: "cell list"
  cp_cmip6 :: "cell list"
  cp_metadata :: cached_metadata

text \<open>
  \<open>get_point_data_cached\<close> with its \<open>lru_cache(maxsize=128)\<close>: the store maps
  \<open>cache_key\<close> to the dictionary returned for it, most recently used first, and the
  counter of remote queries is passed through.  A hit returns the stored dictionary
  and issues no query; a call that raises stores nothing.
\<close>

definition get_point_data_cached ::
  "analyzer \<Rightarrow> gateway \<Rightarrow> string \<Rightarrow> (string \<times> cached_point_data) list \<Rightarrow> nat
     \<Rightarrow> (py_error + cached_point_data) \<times> (string \<times> cached_point_data) list \<times> nat" where
  "get_point_data_cached a gw cache_key cache n =
     (case map_of cache cache_key of
        Some r \<Rightarrow> (Inr r, (cache_key, r) # AList.delete cache_key cache, n)
      | None \<Rightarrow>
          (case json_loads cache_key of
             Inl err \<Rightarrow> (Inl err, cache, n)
           | Inr params \<Rightarrow>
               (case subscript params ''lon'' of
                  Inl err \<Rightarrow> (Inl err, cache, n)
                | Inr lon \<Rightarrow>
                    (case subscript params ''lat'' of
                       Inl err \<Rightarrow> (Inl err, cache, n)
                     | Inr lat \<Rightarrow>
                         (case Geometry_Point lon lat of
                            Inl err \<Rightarrow> (Inl err, cache, n)
                          | Inr point \<Rightarrow>
                              (let gldas_data = FilterBounds (filtered_gldas a) point;
                                   cmip6_data = FilterBounds (filtered_cmip6 a) point;
                                   gldas_monthly =
                                     calculate_monthly_average gldas_data point ''Tair_f_inst'';
                                   cmip6_monthly = calculate_monthly_average cmip6_data point ''tas''
                               in case getInfo gw gldas_monthly n of
                                    (Inl err, n1) \<Rightarrow> (Inl err, cache, n1)
                                  | (Inr g, n1) \<Rightarrow>
                                      (case getInfo gw cmip6_monthly n1 of
                                         (Inl err, n2) \<Rightarrow> (Inl err, cache, n2)
                                       | (Inr c, n2) \<Rightarrow>
                                           (let r = \<lparr>cp_gldas = g, cp_cmip6 = c,
                                                     cp_metadata = \<lparr>cm_lat = lat, cm_lon = lon,
                                                        cm_scenario = scenario a\<rparr>\<rparr>
                                            in (Inr r, take 128 ((cache_key, r) # cache), n2)))))))))"

section \<open>\<open>format_data_for_plotting\<close>\<close>

text \<open>
  \<open>pd.date_range(start=f"{start_year}-01-01", end=f"{end_year}-12-31", freq='M')\<close>:
  the month ends from January of \<open>start_year\<close> to December of \<open>end_year\<close>, each
  given by its year and month; empty when \<open>end_year < start_year\<close>.  Years are
  calendar years inside the range of pandas timestamps.
\<close>

definition date_range :: "int \<Rightarrow> int \<Rightarrow> (int \<times> nat) list" where
  "date_range sy ey = concat (map (\<lambda>y. map (\<lambda>m. (y, m)) [1..<13]) [sy..ey])"

text \<open>
  \<open>pd.DataFrame({'date': dates, 'GLDAS': values})\<close> and \<open>df[name] = values\<close> with a
  list: pandas raises \<open>ValueError\<close> when the list's length differs from the number of
  rows; otherwise the column is replaced in place or appended.
\<close>

definition DataFrame :: "(int \<times> nat) list \<Rightarrow> string \<Rightarrow> cell list \<Rightarrow> py_error + dataframe" where
  "DataFrame dates name values =
     (if length values \<noteq> length dates then Inl ValueError
      else Inr \<lparr>date = dates, columns = [(name, values)]\<rparr>)"

definition setitem :: "dataframe \<Rightarrow> string \<Rightarrow> cell list \<Rightarrow> py_error + dataframe" where
  "setitem df name values =
     (if length values \<noteq> length (date df) then Inl ValueError
      else Inr (df\<lparr>columns := AList.update name values (columns df)\<rparr>))"

text \<open>The loop over \<open>raw_data['cmip6_models'].items()\<close>.\<close>

fun add_models :: "nat \<Rightarrow> dataframe \<Rightarrow> (string \<times> cell list) list \<Rightarrow> py_error + dataframe" where
  "add_models n df [] = Inr df"
| "add_models n df ((model, data) # rest) =
     (case setitem df (''CMIP6_'' @ model) (take n data) of
        Inl err \<Rightarrow> Inl err
      | Inr df' \<Rightarrow> add_models n df' rest)"

definition startswith :: "string \<Rightarrow> string \<Rightarrow> bool" where
  "startswith s p = (take (length p) s = p)"

text \<open>
  Row-wise reductions of pandas, \<open>skipna=True\<close>: \<open>mean\<close> of no value is NaN;
  \<open>std\<close> uses \<open>ddof=1\<close> and is NaN for fewer than two values.
\<close>

definition present :: "cell list \<Rightarrow> real list" where
  "present vs = concat (map (\<lambda>c. case c of None \<Rightarrow> [] | Some x \<Rightarrow> [x]) vs)"

definition nanmean :: "cell list \<Rightarrow> cell" where
  "nanmean vs =
     (let xs = present vs
      in if xs = [] then None else Some (sum_list xs / real (length xs)))"

definition nanstd :: "cell list \<Rightarrow> cell" where
  "nanstd vs =
     (let xs = present vs; count = length xs
      in if count < 2 then None
         else (let avg = sum_list xs / real count
               in Some (sqrt (sum_list (map (\<lambda>x. (avg - x)\<^sup>2) xs) / real (count - 1)))))"

text \<open>\<open>df[cols]\<close>, the cells of row \<open>i\<close>, and a reduction along \<open>axis=1\<close>.\<close>

definition select_columns :: "dataframe \<Rightarrow> string list \<Rightarrow> cell list list" where
  "select_columns df cols = map (\<lambda>c. the (map_of (columns df) c)) cols"

definition row :: "cell list list \<Rightarrow> nat \<Rightarrow> cell list" where
  "row cs i = map (\<lambda>c. c ! i) cs"

definition reduce_rows :: "(cell list \<Rightarrow> cell) \<Rightarrow> dataframe \<Rightarrow> string list \<Rightarrow> cell list" where
  "reduce_rows f df cols =
     map (\<lambda>i. f (row (select_columns df cols) i)) [0..<length (date df)]"

text \<open>Element-wise \<open>a + k * b\<close> on float columns; NaN propagates.\<close>

definition add_scaled :: "cell list \<Rightarrow> real \<Rightarrow> cell list \<Rightarrow> cell list" where
  "add_scaled xs k ys =
     map (\<lambda>(x, y). case (x, y) of (Some u, Some v) \<Rightarrow> Some (u + k * v) | _ \<Rightarrow> None) (zip xs ys)"

definition column :: "dataframe \<Rightarrow> string \<Rightarrow> cell list" where
  "column df name = the (map_of (columns df) name)"

definition assign :: "dataframe \<Rightarrow> string \<Rightarrow> cell list \<Rightarrow> dataframe" where
  "assign df name values = df\<lparr>columns := AList.update name values (columns df)\<rparr>"

text \<open>
  The block ``Calculate ensemble statistics'' of \<open>format_data_for_plotting\<close>
  (the last five statements before \<open>return df\<close>).  The four assignments cannot fail:
  each value has one entry per row.  \<open>cmip6_cols\<close> is computed once, from the column
  names present before the statistics are added.
\<close>

definition ensemble_statistics :: "dataframe \<Rightarrow> dataframe" where
  "ensemble_statistics df1 =
     (let cmip6_cols = filter (\<lambda>col. startswith col ''CMIP6_'') (map fst (columns df1));
          df2 = assign df1 ''CMIP6_mean'' (reduce_rows nanmean df1 cmip6_cols);
          df3 = assign df2 ''CMIP6_std'' (reduce_rows nanstd df2 cmip6_cols);
          df4 = assign df3 ''CMIP6_upper''
                  (add_scaled (column df3 ''CMIP6_mean'') 2 (column df3 ''CMIP6_std''));
          df5 = assign df4 ''CMIP6_lower''
                  (add_scaled (column df4 ''CMIP6_mean'') (- 2) (column df4 ''CMIP6_std''))
      in df5)"

text \<open>
  The body of \<open>format_data_for_plotting\<close> after \<open>raw_data = json.loads(data_key)\<close>,
  on the decoded document (its \<open>gldas\<close> list and its \<open>cmip6_models\<close> dictionary): the frame with the dates and the GLDAS column, one column
  per model, then the statistics.
\<close>

definition build_table :: "analyzer \<Rightarrow> point_data \<Rightarrow> py_error + dataframe" where
  "build_table a raw_data =
     (let dates = date_range (start_year a) (end_year a)
      in case DataFrame dates ''GLDAS'' (take (length dates) (pd_gldas raw_data)) of
           Inl err \<Rightarrow> Inl err
         | Inr df0 \<Rightarrow>
             (case add_models (length dates) df0 (pd_cmip6_models raw_data) of
                Inl err \<Rightarrow> Inl err
              | Inr df1 \<Rightarrow> Inr (ensemble_statistics df1)))"


section \<open>A stub gateway\<close>

text \<open>
  The gateway of the end-to-end scenario: every historical query returns \<open>k\<close> values
  of 273.15 K, there are two models, and a query filtered to a model returns \<open>k\<close>
  values of 283.15 K for the first and 293.15 K for the second.
\<close>

definition stub_gateway :: "nat \<Rightarrow> gateway" where
  "stub_gateway k =
     \<lparr>reduce_region = (\<lambda>collection point band_name.
        Inr (replicate k
          (case collection of
             FilterBounds (Filter c (Filter_eq f m)) p \<Rightarrow>
               if m = ''model_a'' then 283.15 else 293.15
           | _ \<Rightarrow> 273.15))),
      distinct_models = (\<lambda>collection. Inr [''model_a'', ''model_b''])\<rparr>"

text \<open>The point data \<open>get_point_data\<close> returns from the stub gateway.\<close>

definition stub_point_data :: "nat \<Rightarrow> real \<Rightarrow> real \<Rightarrow> string \<Rightarrow> point_data" where
  "stub_point_data k lat lon sc =
     \<lparr>pd_gldas = replicate k (Some 0),
      pd_cmip6_models = [(''model_a'', replicate k (Some 10)), (''model_b'', replicate k (Some 20))],
      pd_metadata = \<lparr>md_lat = lat, md_lon = lon, md_scenario = sc,
                     md_models = [''model_a'', ''model_b'']\<rparr>\<rparr>"

text \<open>
  A decoded document in which one model identifier is \<open>mean\<close>: its column is
  named \<open>CMIP6_mean\<close>, the name the ensemble mean is stored under.
\<close>

definition mean_named_data :: point_data where
  "mean_named_data =
     \<lparr>pd_gldas = replicate 36 (Some 0),
      pd_cmip6_models = [(''mean'', replicate 36 (Some 10)), (''other'', replicate 36 (Some 20))],
      pd_metadata = \<lparr>md_lat = 40, md_lon = - 105, md_scenario = ''ssp585'',
                     md_models = [''mean'', ''other'']\<rparr>\<rparr>"

section \<open>Properties of \<open>get_point_data\<close>\<close>

lemma update_entry:
  "(k', v') \<in> set (AList.update k v al) \<Longrightarrow> (k', v') = (k, v) \<or> (k', v') \<in> set al"
  by (induction al) (auto split: if_splits)

lemma cmip6_by_model_keys_aux:
  "fst ` set (foldl (\<lambda>d model. AList.update model (f model) d) acc models) = fst ` set acc \<union> set models"
  by (induction models arbitrary: acc) (auto simp: dom_update)

lemma cmip6_by_model_distinct_aux:
  "distinct (map fst acc) \<Longrightarrow>
   distinct (map fst (foldl (\<lambda>d model. AList.update model (f model) d) acc models))"
  by (induction models arbitrary: acc) (auto simp: distinct_update)

lemma cmip6_by_model_entry_aux:
  "(m, e) \<in> set (foldl (\<lambda>d model. AList.update model (f model) d) acc models) \<Longrightarrow>
   (m, e) \<in> set acc \<or> e = f m"
  by (induction models arbitrary: acc) (auto dest: update_entry)

lemma update_fresh: "k \<notin> fst ` set al \<Longrightarrow> AList.update k v al = al @ [(k, v)]"
  by (induction al) auto

lemma cmip6_by_model_fresh_aux:
  "distinct models \<Longrightarrow> set models \<inter> fst ` set acc = {} \<Longrightarrow>
   foldl (\<lambda>d model. AList.update model (f model) d) acc models = acc @ map (\<lambda>m. (m, f m)) models"
proof (induction models arbitrary: acc)
  case Nil
  then show ?case by simp
next
  case (Cons m models)
  have "AList.update m (f m) acc = acc @ [(m, f m)]"
    using Cons.prems by (intro update_fresh) auto
  moreover have "set models \<inter> fst ` set (acc @ [(m, f m)]) = {}"
    using Cons.prems by auto
  ultimately show ?case
    using Cons.IH [of "acc @ [(m, f m)]"] Cons.prems by simp
qed

lemma getInfo_items_result:
  "getInfo_items gw items n = (Inr ms, n') \<Longrightarrow>
     n' = n + length items \<and> map fst ms = map fst items"
proof (induction items arbitrary: n ms n')
  case Nil
  then show ?case by simp
next
  case (Cons it items)
  obtain model data where it: "it = (model, data)" by (cases it)
  from Cons.prems it obtain v n1 vs where
    a: "getInfo gw data n = (Inr v, n1)" and
    b: "getInfo_items gw items n1 = (Inr vs, n')" and
    c: "ms = (model, v) # vs"
    by (auto split: prod.splits sum.splits)
  from a have "n1 = Suc n"
    by (auto simp: getInfo_def split: ee_temperatures.splits sum.splits)
  with Cons.IH [OF b] c it show ?case by simp
qed

lemma getInfo_items_values:
  "getInfo_items gw items n = (Inr ms, n') \<Longrightarrow> (m, v) \<in> set ms \<Longrightarrow>
     \<exists>c p b raw. (m, Temperature_array c p b) \<in> set items \<and> reduce_region gw c p b = Inr raw
        \<and> v = map (\<lambda>k. Some (k - 273.15)) raw"
proof (induction items arbitrary: n ms n')
  case Nil
  then show ?case by simp
next
  case (Cons it items)
  obtain model data where it: "it = (model, data)" by (cases it)
  from Cons.prems(1) it obtain v1 n1 vs where
    a: "getInfo gw data n = (Inr v1, n1)" and
    b: "getInfo_items gw items n1 = (Inr vs, n')" and
    c: "ms = (model, v1) # vs"
    by (auto split: prod.splits sum.splits)
  show ?case
  proof (cases "(m, v) = (model, v1)")
    case True
    obtain c p b where d: "data = Temperature_array c p b" by (cases data)
    with a obtain raw where "reduce_region gw c p b = Inr raw" "v1 = map (\<lambda>k. Some (k - 273.15)) raw"
      by (auto simp: getInfo_def monthly_reducer_def split: sum.splits)
    with True it d show ?thesis by auto
  next
    case False
    with Cons.prems(2) c have "(m, v) \<in> set vs" by auto
    from Cons.IH [OF b this] show ?thesis by auto
  qed
qed

lemma get_point_data_success:
  assumes "get_point_data a gw lat lon n = (Inr d, n')"
  obtains models g ms where
    "distinct_models gw (filtered_cmip6 a) = Inr models"
    "getInfo gw (calculate_monthly_average (FilterBounds (filtered_gldas a) (Point lon lat)) (Point lon lat) ''Tair_f_inst'') (Suc n) = (Inr g, Suc (Suc n))"
    "getInfo_items gw (cmip6_by_model a (Point lon lat) models) (Suc (Suc n)) = (Inr ms, n')"
    "d = \<lparr>pd_gldas = g, pd_cmip6_models = ms,
          pd_metadata = \<lparr>md_lat = lat, md_lon = lon, md_scenario = scenario a, md_models = models\<rparr>\<rparr>"
proof -
  from assms obtain models n1 where m: "getInfo_models gw (Model_array (filtered_cmip6 a)) n = (Inr models, n1)"
    by (auto simp: get_point_data_def Let_def split: prod.splits sum.splits)
  then have n1: "n1 = Suc n" and dm: "distinct_models gw (filtered_cmip6 a) = Inr models"
    by (auto simp: getInfo_models_def)
  from assms m obtain g n2 where g: "getInfo gw (calculate_monthly_average (FilterBounds (filtered_gldas a) (Point lon lat)) (Point lon lat) ''Tair_f_inst'') n1 = (Inr g, n2)"
    by (auto simp: get_point_data_def Let_def split: prod.splits sum.splits)
  then have n2: "n2 = Suc n1"
    by (auto simp: getInfo_def calculate_monthly_average_def split: sum.splits)
  from assms m g obtain ms where
    "getInfo_items gw (cmip6_by_model a (Point lon lat) models) n2 = (Inr ms, n')"
    "d = \<lparr>pd_gldas = g, pd_cmip6_models = ms,
          pd_metadata = \<lparr>md_lat = lat, md_lon = lon, md_scenario = scenario a, md_models = models\<rparr>\<rparr>"
    by (auto simp: get_point_data_def Let_def split: prod.splits sum.splits)
  with dm g n1 n2 that show thesis by simp
qed

section \<open>Properties of the table construction\<close>

lemma length_date_range: "length (date_range sy ey) = 12 * nat (ey - sy + 1)"
proof -
  have "length (date_range sy ey) = sum_list (map (\<lambda>y. 12) [sy..ey])"
    by (simp add: date_range_def length_concat comp_def)
  also have "\<dots> = 12 * length [sy..ey]"
    by (simp add: sum_list_triv)
  finally show ?thesis by simp
qed

lemma add_models_eq:
  "add_models n df items =
     (if \<forall>(m, s) \<in> set items. length (take n s) = length (date df)
      then Inr (df\<lparr>columns := foldl (\<lambda>cs (m, s). AList.update (''CMIP6_'' @ m) (take n s) cs) (columns df) items\<rparr>)
      else Inl ValueError)"
proof (induction items arbitrary: df)
  case Nil
  then show ?case by simp
next
  case (Cons it items)
  obtain m s where it: "it = (m, s)" by (cases it)
  show ?case
  proof (cases "length (take n s) = length (date df)")
    case True
    then have "setitem df (''CMIP6_'' @ m) (take n s) = Inr (df\<lparr>columns := AList.update (''CMIP6_'' @ m) (take n s) (columns df)\<rparr>)"
      by (simp add: setitem_def)
    with True it Cons.IH [of "df\<lparr>columns := AList.update (''CMIP6_'' @ m) (take n s) (columns df)\<rparr>"]
    show ?thesis by simp
  next
    case False
    then have "setitem df (''CMIP6_'' @ m) (take n s) = Inl ValueError"
      by (simp add: setitem_def)
    with False it show ?thesis by auto
  qed
qed

lemma length_take_eq: "length (take n s) = n \<longleftrightarrow> n \<le> length s"
  by auto

lemma all_take_length:
  "(\<forall>(m, s) \<in> set items. length (take n s) = n) \<longleftrightarrow> (\<forall>(m, s) \<in> set items. n \<le> length s)"
  by (intro ball_cong refl) (auto simp: min_def)

lemma build_table_eq:
  "build_table a d =
     (if length (date_range (start_year a) (end_year a)) \<le> length (pd_gldas d)
         \<and> (\<forall>(m, s) \<in> set (pd_cmip6_models d).
               length (date_range (start_year a) (end_year a)) \<le> length s)
      then Inr (ensemble_statistics
             \<lparr>date = date_range (start_year a) (end_year a),
              columns = foldl (\<lambda>cs (m, s). AList.update (''CMIP6_'' @ m)
                            (take (length (date_range (start_year a) (end_year a))) s) cs)
                         [(''GLDAS'', take (length (date_range (start_year a) (end_year a))) (pd_gldas d))]
                         (pd_cmip6_models d)\<rparr>)
      else Inl ValueError)"
proof -
  define dates where "dates = date_range (start_year a) (end_year a)"
  define n where "n = length dates"
  show ?thesis
  proof (cases "n \<le> length (pd_gldas d)")
    case False
    then have "DataFrame dates ''GLDAS'' (take n (pd_gldas d)) = Inl ValueError"
      by (simp add: DataFrame_def n_def)
    with False show ?thesis
      by (simp add: build_table_def Let_def dates_def [symmetric] n_def [symmetric])
  next
    case True
    then have df0: "DataFrame dates ''GLDAS'' (take n (pd_gldas d))
        = Inr \<lparr>date = dates, columns = [(''GLDAS'', take n (pd_gldas d))]\<rparr>"
      by (simp add: DataFrame_def n_def)
    have "add_models n \<lparr>date = dates, columns = [(''GLDAS'', take n (pd_gldas d))]\<rparr> (pd_cmip6_models d)
       = (if \<forall>(m, s) \<in> set (pd_cmip6_models d). n \<le> length s
          then Inr \<lparr>date = dates,
                 columns = foldl (\<lambda>cs (m, s). AList.update (''CMIP6_'' @ m) (take n s) cs)
                            [(''GLDAS'', take n (pd_gldas d))] (pd_cmip6_models d)\<rparr>
          else Inl ValueError)"
      unfolding add_models_eq using all_take_length [of "pd_cmip6_models d" n]
      by (simp add: n_def del: length_take)
    with True df0 show ?thesis
      by (simp add: build_table_def Let_def dates_def [symmetric] n_def [symmetric])
  qed
qed

lemma date_ensemble_statistics: "date (ensemble_statistics df) = date df"
  by (simp add: ensemble_statistics_def Let_def assign_def)

lemma column_assign: "column (assign df k v) c = (if c = k then v else column df c)"
  by (simp add: column_def assign_def update_conv')

lemma date_assign: "date (assign df k v) = date df"
  by (simp add: assign_def)

lemma ensemble_statistics_columns:
  fixes df1
  defines "cc \<equiv> filter (\<lambda>col. startswith col ''CMIP6_'') (map fst (columns df1))"
  defines "M \<equiv> reduce_rows nanmean df1 cc"
  defines "S \<equiv> reduce_rows nanstd (assign df1 ''CMIP6_mean'' M) cc"
  shows "column (ensemble_statistics df1) ''CMIP6_mean'' = M"
    and "column (ensemble_statistics df1) ''CMIP6_std'' = S"
    and "column (ensemble_statistics df1) ''CMIP6_upper'' = add_scaled M 2 S"
    and "column (ensemble_statistics df1) ''CMIP6_lower'' = add_scaled M (- 2) S"
    and "c \<notin> {''CMIP6_mean'', ''CMIP6_std'', ''CMIP6_upper'', ''CMIP6_lower''} \<Longrightarrow>
         column (ensemble_statistics df1) c = column df1 c"
  unfolding ensemble_statistics_def Let_def cc_def M_def S_def
  by (simp_all add: column_assign)

lemma length_reduce_rows: "length (reduce_rows f df cols) = length (date df)"
  by (simp add: reduce_rows_def)

lemma nth_reduce_rows:
  "i < length (date df) \<Longrightarrow>
   reduce_rows f df cols ! i = f (map (\<lambda>c. column df c ! i) cols)"
  by (simp add: reduce_rows_def row_def select_columns_def column_def comp_def)

lemma nth_add_scaled:
  "i < length xs \<Longrightarrow> i < length ys \<Longrightarrow>
   add_scaled xs k ys ! i =
     (case (xs ! i, ys ! i) of (Some u, Some v) \<Rightarrow> Some (u + k * v) | _ \<Rightarrow> None)"
  by (simp add: add_scaled_def)

lemma present_all_None: "\<forall>c \<in> set vs. c = None \<Longrightarrow> present vs = []"
  by (induction vs) (auto simp: present_def)

lemma nanmean_all_None: "\<forall>c \<in> set vs. c = None \<Longrightarrow> nanmean vs = None"
  by (simp add: nanmean_def present_all_None)

lemma nanstd_all_None: "\<forall>c \<in> set vs. c = None \<Longrightarrow> nanstd vs = None"
  by (simp add: nanstd_def present_all_None)

lemma model_columns_entry:
  "(c, v) \<in> set (foldl (\<lambda>cs (m, s). AList.update (''CMIP6_'' @ m) (take n s) cs) acc items) \<Longrightarrow>
   (c, v) \<in> set acc \<or> (\<exists>m s. (m, s) \<in> set items \<and> c = ''CMIP6_'' @ m \<and> v = take n s)"
proof (induction items arbitrary: acc)
  case Nil
  then show ?case by simp
next
  case (Cons it items)
  obtain m s where it: "it = (m, s)" by (cases it)
  from Cons.prems it
  have "(c, v) \<in> set (foldl (\<lambda>cs (m, s). AList.update (''CMIP6_'' @ m) (take n s) cs)
                        (AList.update (''CMIP6_'' @ m) (take n s) acc) items)"
    by simp
  from Cons.IH [OF this] it show ?case
    by (auto dest: update_entry)
qed

lemma model_columns_distinct:
  "distinct (map fst items) \<Longrightarrow> (\<forall>(m, s) \<in> set items. ''CMIP6_'' @ m \<notin> fst ` set acc) \<Longrightarrow>
   foldl (\<lambda>cs (m, s). AList.update (''CMIP6_'' @ m) (take n s) cs) acc items
     = acc @ map (\<lambda>(m, s). (''CMIP6_'' @ m, take n s)) items"
proof (induction items arbitrary: acc)
  case Nil
  then show ?case by simp
next
  case (Cons it items)
  obtain m s where it: "it = (m, s)" by (cases it)
  have u: "AList.update (''CMIP6_'' @ m) (take n s) acc = acc @ [(''CMIP6_'' @ m, take n s)]"
    using Cons.prems it by (intro update_fresh) auto
  have "\<forall>(m', s') \<in> set items. ''CMIP6_'' @ m' \<notin> fst ` set (acc @ [(''CMIP6_'' @ m, take n s)])"
    using Cons.prems it by (auto simp: image_iff)
  with Cons.IH [of "acc @ [(''CMIP6_'' @ m, take n s)]"] Cons.prems it u
  show ?case by simp
qed

lemma startswith_CMIP6: "startswith (''CMIP6_'' @ m) ''CMIP6_''"
  by (simp add: startswith_def)

lemma not_startswith_GLDAS: "\<not> startswith ''GLDAS'' ''CMIP6_''"
  by (simp add: startswith_def)

lemma build_table_InrD:
  assumes "build_table a d = Inr t"
  shows "length (date_range (start_year a) (end_year a)) \<le> length (pd_gldas d)"
    and "\<forall>(m, s) \<in> set (pd_cmip6_models d). length (date_range (start_year a) (end_year a)) \<le> length s"
    and "t = ensemble_statistics
             \<lparr>date = date_range (start_year a) (end_year a),
              columns = foldl (\<lambda>cs (m, s). AList.update (''CMIP6_'' @ m)
                            (take (length (date_range (start_year a) (end_year a))) s) cs)
                         [(''GLDAS'', take (length (date_range (start_year a) (end_year a))) (pd_gldas d))]
                         (pd_cmip6_models d)\<rparr>"
  using assms unfolding build_table_eq by (simp_all split: if_splits)

lemma date_build_table:
  "build_table a d = Inr t \<Longrightarrow> date t = date_range (start_year a) (end_year a)"
  by (drule build_table_InrD(3)) (simp add: date_ensemble_statistics)

lemma model_frame_distinct:
  fixes n g
  assumes dist: "distinct (map fst models)"
  defines "cols1 \<equiv> foldl (\<lambda>cs (m, s). AList.update (''CMIP6_'' @ m) (take n s) cs)
                       [(''GLDAS'', g)] models"
  shows "cols1 = (''GLDAS'', g) # map (\<lambda>(m, s). (''CMIP6_'' @ m, take n s)) models"
    and "filter (\<lambda>col. startswith col ''CMIP6_'') (map fst cols1) = map (\<lambda>(m, s). ''CMIP6_'' @ m) models"
    and "distinct (map fst cols1)"
proof -
  show c: "cols1 = (''GLDAS'', g) # map (\<lambda>(m, s). (''CMIP6_'' @ m, take n s)) models"
    unfolding cols1_def using dist by (subst model_columns_distinct) auto
  show "filter (\<lambda>col. startswith col ''CMIP6_'') (map fst cols1) = map (\<lambda>(m, s). ''CMIP6_'' @ m) models"
    unfolding c
    by (simp add: filter_map comp_def case_prod_beta startswith_def)
  have "map fst (map (\<lambda>(m, s). (''CMIP6_'' @ m, take n s)) models) = map ((@) ''CMIP6_'') (map fst models)"
    by (simp add: comp_def case_prod_beta)
  moreover have "distinct (map ((@) ''CMIP6_'') (map fst models))"
    using dist by (simp add: distinct_map inj_on_def del: map_map)
  moreover have "''GLDAS'' \<notin> set (map ((@) ''CMIP6_'') (map fst models))"
    by auto
  ultimately show "distinct (map fst cols1)"
    unfolding c by (simp del: map_map)
qed

lemma ensemble_rows:
  assumes ok: "build_table a d = Inr t"
    and dist: "distinct (map fst (pd_cmip6_models d))"
    and nm: "''mean'' \<notin> fst ` set (pd_cmip6_models d)"
    and i: "i < length (date t)"
  shows "column t ''CMIP6_mean'' ! i = nanmean (map (\<lambda>(m, s). s ! i) (pd_cmip6_models d))"
    and "column t ''CMIP6_std'' ! i = nanstd (map (\<lambda>(m, s). s ! i) (pd_cmip6_models d))"
    and "column t ''CMIP6_upper'' ! i =
           (case (column t ''CMIP6_mean'' ! i, column t ''CMIP6_std'' ! i) of
              (Some u, Some v) \<Rightarrow> Some (u + 2 * v) | _ \<Rightarrow> None)"
    and "column t ''CMIP6_lower'' ! i =
           (case (column t ''CMIP6_mean'' ! i, column t ''CMIP6_std'' ! i) of
              (Some u, Some v) \<Rightarrow> Some (u - 2 * v) | _ \<Rightarrow> None)"
proof -
  define dates where "dates = date_range (start_year a) (end_year a)"
  define n where "n = length dates"
  define models where "models = pd_cmip6_models d"
  define cols1 where "cols1 = foldl (\<lambda>cs (m, s). AList.update (''CMIP6_'' @ m) (take n s) cs)
                       [(''GLDAS'', take n (pd_gldas d))] models"
  define df1 where "df1 = \<lparr>date = dates, columns = cols1\<rparr>"
  define cc where "cc = filter (\<lambda>col. startswith col ''CMIP6_'') (map fst (columns df1))"
  define M where "M = reduce_rows nanmean df1 cc"
  define S where "S = reduce_rows nanstd (assign df1 ''CMIP6_mean'' M) cc"
  note defs = dates_def n_def models_def cols1_def df1_def
  have t: "t = ensemble_statistics df1"
    using build_table_InrD(3) [OF ok] by (simp add: defs)
  have len: "\<forall>(m, s) \<in> set models. n \<le> length s"
    using build_table_InrD(2) [OF ok] by (simp add: defs)
  have "date t = dates"
    using date_build_table [OF ok] by (simp add: defs)
  with i have i: "i < n" by (simp add: n_def)
  have dist': "distinct (map fst models)" using dist by (simp add: models_def)
  have c1: "cols1 = (''GLDAS'', take n (pd_gldas d)) # map (\<lambda>(m, s). (''CMIP6_'' @ m, take n s)) models"
    and cc: "cc = map (\<lambda>(m, s). ''CMIP6_'' @ m) models"
    and dc: "distinct (map fst cols1)"
    using model_frame_distinct [OF dist', of n "take n (pd_gldas d)"]
    by (simp_all add: cols1_def cc_def df1_def)
  have col: "column df1 (''CMIP6_'' @ m) = take n s" if "(m, s) \<in> set models" for m s
  proof -
    have "(''CMIP6_'' @ m, take n s) \<in> set cols1"
      using that unfolding c1 by force
    with dc have "map_of cols1 (''CMIP6_'' @ m) = Some (take n s)"
      by simp
    then show ?thesis by (simp add: column_def df1_def)
  qed
  have rowi: "map (\<lambda>c. column df1 c ! i) cc = map (\<lambda>(m, s). s ! i) models"
    unfolding cc using col i by (auto simp: comp_def)
  have "''CMIP6_mean'' \<notin> set cc"
    using nm unfolding cc models_def by (auto simp: image_iff)
  then have rowi2: "map (\<lambda>c. column (assign df1 ''CMIP6_mean'' M) c ! i) cc = map (\<lambda>(m, s). s ! i) models"
    using rowi by (smt (verit) column_assign map_eq_conv)
  have dl: "length (date df1) = n" by (simp add: df1_def n_def)
  have Mi: "M ! i = nanmean (map (\<lambda>(m, s). s ! i) models)"
    unfolding M_def using i dl rowi by (simp add: nth_reduce_rows)
  have Si: "S ! i = nanstd (map (\<lambda>(m, s). s ! i) models)"
    unfolding S_def using i dl rowi2 by (simp add: nth_reduce_rows date_assign)
  have lM: "length M = n" and lS: "length S = n"
    by (simp_all add: M_def S_def length_reduce_rows date_assign dl)
  have cm: "column t ''CMIP6_mean'' = M" and cs: "column t ''CMIP6_std'' = S"
    and cu: "column t ''CMIP6_upper'' = add_scaled M 2 S"
    and cl: "column t ''CMIP6_lower'' = add_scaled M (- 2) S"
    unfolding t M_def S_def cc_def by (rule ensemble_statistics_columns)+
  show "column t ''CMIP6_mean'' ! i = nanmean (map (\<lambda>(m, s). s ! i) (pd_cmip6_models d))"
    using Mi cm by (simp add: models_def)
  show "column t ''CMIP6_std'' ! i = nanstd (map (\<lambda>(m, s). s ! i) (pd_cmip6_models d))"
    using Si cs by (simp add: models_def)
  show "column t ''CMIP6_upper'' ! i =
           (case (column t ''CMIP6_mean'' ! i, column t ''CMIP6_std'' ! i) of
              (Some u, Some v) \<Rightarrow> Some (u + 2 * v) | _ \<Rightarrow> None)"
    unfolding cm cs cu using i lM lS by (simp add: nth_add_scaled)
  show "column t ''CMIP6_lower'' ! i =
           (case (column t ''CMIP6_mean'' ! i, column t ''CMIP6_std'' ! i) of
              (Some u, Some v) \<Rightarrow> Some (u - 2 * v) | _ \<Rightarrow> None)"
    unfolding cm cs cl using i lM lS by (simp add: nth_add_scaled split: option.splits)
qed

section \<open>The stub gateway evaluated\<close>

lemma stub_get_point_data:
  "get_point_data (TemperatureAnalyzer sy ey sc) (stub_gateway k) lat lon n
     = (Inr (stub_point_data k lat lon sc), n + 4)"
  by (simp add: get_point_data_def getInfo_models_def getInfo_def cmip6_by_model_def
      calculate_monthly_average_def stub_gateway_def stub_point_data_def monthly_reducer_def
      TemperatureAnalyzer_def filtered_gldas_def filtered_cmip6_def Let_def)

lemma nanmean_pair: "nanmean [Some x, Some y] = Some ((x + y) / 2)"
  by (simp add: nanmean_def present_def)

lemma nanstd_pair: "nanstd [Some x, Some y] = Some (sqrt (((x + y) / 2 - x)\<^sup>2 + ((x + y) / 2 - y)\<^sup>2))"
  by (simp add: nanstd_def present_def Let_def)

lemma length_date_range_2010_2012: "length (date_range 2010 2012) = 36"
  by (simp add: length_date_range)

lemma stub_table:
  assumes "36 \<le> k"
  shows "build_table (TemperatureAnalyzer 2010 2012 sc) (stub_point_data k lat lon sc') =
     Inr \<lparr>date = date_range 2010 2012,
          columns = [(''GLDAS'', replicate 36 (Some 0)),
                     (''CMIP6_model_a'', replicate 36 (Some 10)),
                     (''CMIP6_model_b'', replicate 36 (Some 20)),
                     (''CMIP6_mean'', replicate 36 (Some 15)),
                     (''CMIP6_std'', replicate 36 (Some (sqrt 50))),
                     (''CMIP6_upper'', replicate 36 (Some (15 + 2 * sqrt 50))),
                     (''CMIP6_lower'', replicate 36 (Some (15 - 2 * sqrt 50)))]\<rparr>"
proof -
  define df1 where "df1 = \<lparr>date = date_range 2010 2012,
          columns = [(''GLDAS'', replicate 36 (Some (0::real))),
                     (''CMIP6_model_a'', replicate 36 (Some 10)),
                     (''CMIP6_model_b'', replicate 36 (Some 20))]\<rparr>"
  have b: "build_table (TemperatureAnalyzer 2010 2012 sc) (stub_point_data k lat lon sc')
      = Inr (ensemble_statistics df1)"
    using assms unfolding build_table_eq
    by (simp add: TemperatureAnalyzer_def stub_point_data_def length_date_range_2010_2012 df1_def min_def)
  have cc: "filter (\<lambda>col. startswith col ''CMIP6_'') (map fst (columns df1))
      = [''CMIP6_model_a'', ''CMIP6_model_b'']"
    by (simp add: df1_def startswith_def)
  have M: "reduce_rows nanmean df1 [''CMIP6_model_a'', ''CMIP6_model_b''] = replicate 36 (Some 15)"
    by (rule nth_equalityI)
      (simp_all add: length_reduce_rows nth_reduce_rows df1_def length_date_range_2010_2012
        column_def nanmean_pair)
  have S: "reduce_rows nanstd (assign df1 ''CMIP6_mean'' (replicate 36 (Some 15)))
       [''CMIP6_model_a'', ''CMIP6_model_b''] = replicate 36 (Some (sqrt 50))"
    by (rule nth_equalityI)
      (simp_all add: length_reduce_rows nth_reduce_rows df1_def length_date_range_2010_2012
        column_def nanstd_pair assign_def)
  have U: "add_scaled (replicate 36 (Some 15)) k' (replicate 36 (Some (sqrt 50)))
      = replicate 36 (Some (15 + k' * sqrt 50))" for k'
    by (simp add: add_scaled_def zip_replicate)
  show ?thesis
    unfolding b ensemble_statistics_def Let_def cc M S column_assign
    by (simp add: U) (simp add: assign_def df1_def)
qed

section \<open>Retrieval: model list, query count, unit conversion\<close>

lemma get_point_data_keys:
  assumes "get_point_data a gw lat lon n = (Inr d, n')"
  shows "map fst (pd_cmip6_models d) = map fst (cmip6_by_model a (Point lon lat) (md_models (pd_metadata d)))"
    and "n' = n + 2 + length (pd_cmip6_models d)"
proof -
  from assms obtain models g ms where
    items: "getInfo_items gw (cmip6_by_model a (Point lon lat) models) (Suc (Suc n)) = (Inr ms, n')"
    and d: "d = \<lparr>pd_gldas = g, pd_cmip6_models = ms,
          pd_metadata = \<lparr>md_lat = lat, md_lon = lon, md_scenario = scenario a, md_models = models\<rparr>\<rparr>"
    by (rule get_point_data_success)
  from getInfo_items_result [OF items]
  have r: "n' = Suc (Suc n) + length (cmip6_by_model a (Point lon lat) models)"
    "map fst ms = map fst (cmip6_by_model a (Point lon lat) models)" by simp_all
  from r(2) d show "map fst (pd_cmip6_models d) = map fst (cmip6_by_model a (Point lon lat) (md_models (pd_metadata d)))"
    by simp
  from r(2) have "length ms = length (cmip6_by_model a (Point lon lat) models)"
    by (metis length_map)
  with r(1) d show "n' = n + 2 + length (pd_cmip6_models d)" by simp
qed

lemma get_point_data_models:
  assumes "get_point_data a gw lat lon n = (Inr d, n')"
  shows "set (md_models (pd_metadata d)) = fst ` set (pd_cmip6_models d)
       \<and> distinct (map fst (pd_cmip6_models d))
       \<and> (distinct (md_models (pd_metadata d)) \<longrightarrow>
            map fst (pd_cmip6_models d) = md_models (pd_metadata d))"
proof -
  let ?models = "md_models (pd_metadata d)"
  let ?f = "\<lambda>model. calculate_monthly_average
             (FilterBounds (Filter (filtered_cmip6 a) (Filter_eq ''model'' model)) (Point lon lat))
             (Point lon lat) ''tas''"
  have k: "map fst (pd_cmip6_models d) = map fst (cmip6_by_model a (Point lon lat) ?models)"
    by (rule get_point_data_keys(1) [OF assms])
  have "fst ` set (cmip6_by_model a (Point lon lat) ?models) = set ?models"
    unfolding cmip6_by_model_def using cmip6_by_model_keys_aux [of ?f "[]" ?models] by simp
  then have 1: "set ?models = fst ` set (pd_cmip6_models d)"
    using k by (metis set_map)
  have "distinct (map fst (cmip6_by_model a (Point lon lat) ?models))"
    unfolding cmip6_by_model_def using cmip6_by_model_distinct_aux [of "[]" ?f ?models] by simp
  with k have 2: "distinct (map fst (pd_cmip6_models d))" by simp
  have 3: "map fst (pd_cmip6_models d) = ?models" if "distinct ?models"
    unfolding k cmip6_by_model_def using cmip6_by_model_fresh_aux [OF that, of "[]" ?f]
    by (simp add: comp_def)
  from 1 2 3 show ?thesis by blast
qed

text \<open>
  Claim C10.  After a successful \<open>get_point_data\<close>, the \<open>models\<close> list of the
  metadata and the keys of \<open>cmip6_models\<close> are the same identifiers, every key
  occurs once, and when the gateway's list has no repetition the keys are that list,
  in order: one series per listed model.
\<close>

theorem metadata_models_match_series:
  assumes "get_point_data a gw lat lon n = (Inr d, n')"
  shows "set (md_models (pd_metadata d)) = fst ` set (pd_cmip6_models d)
       \<and> distinct (map fst (pd_cmip6_models d))
       \<and> (distinct (md_models (pd_metadata d)) \<longrightarrow>
            map fst (pd_cmip6_models d) = md_models (pd_metadata d))"
  using assms by (rule get_point_data_models)

theorem metadata_models_match_series_witness:
  "set (md_models (pd_metadata (stub_point_data 36 40 (- 105) ''ssp585'')))
       = fst ` set (pd_cmip6_models (stub_point_data 36 40 (- 105) ''ssp585''))
   \<and> map fst (pd_cmip6_models (stub_point_data 36 40 (- 105) ''ssp585'')) = [''model_a'', ''model_b'']"
  using metadata_models_match_series [OF stub_get_point_data [of 2010 2012 "''ssp585''" 36 40 "- 105" 0]]
  by (simp add: stub_point_data_def)


lemma build_table_columns_kept:
  assumes ok: "build_table a d = Inr t"
    and dist: "distinct (map fst (pd_cmip6_models d))"
  shows "column t ''GLDAS'' = take (length (date t)) (pd_gldas d)"
    and "(m, v) \<in> set (pd_cmip6_models d) \<Longrightarrow> m \<notin> {''mean'', ''std'', ''upper'', ''lower''} \<Longrightarrow>
         column t (''CMIP6_'' @ m) = take (length (date t)) v"
proof -
  define n where "n = length (date_range (start_year a) (end_year a))"
  define cols1 where "cols1 = foldl (\<lambda>cs (m, s). AList.update (''CMIP6_'' @ m) (take n s) cs)
                       [(''GLDAS'', take n (pd_gldas d))] (pd_cmip6_models d)"
  define df1 where "df1 = \<lparr>date = date_range (start_year a) (end_year a), columns = cols1\<rparr>"
  have t: "t = ensemble_statistics df1"
    using build_table_InrD(3) [OF ok] by (simp add: n_def cols1_def df1_def)
  have n: "length (date t) = n"
    using date_build_table [OF ok] by (simp add: n_def)
  have c1: "cols1 = (''GLDAS'', take n (pd_gldas d)) # map (\<lambda>(m, s). (''CMIP6_'' @ m, take n s)) (pd_cmip6_models d)"
    and dc: "distinct (map fst cols1)"
    using model_frame_distinct [OF dist, of n "take n (pd_gldas d)"] by (simp_all add: cols1_def)
  have "column t ''GLDAS'' = column df1 ''GLDAS''"
    unfolding t by (rule ensemble_statistics_columns(5)) simp
  then show "column t ''GLDAS'' = take (length (date t)) (pd_gldas d)"
    by (simp add: n column_def df1_def c1)
  assume mv: "(m, v) \<in> set (pd_cmip6_models d)" and m: "m \<notin> {''mean'', ''std'', ''upper'', ''lower''}"
  have "(''CMIP6_'' @ m, take n v) \<in> set cols1"
    using mv unfolding c1 by force
  with dc have "map_of cols1 (''CMIP6_'' @ m) = Some (take n v)" by simp
  moreover have "column t (''CMIP6_'' @ m) = column df1 (''CMIP6_'' @ m)"
    unfolding t using m by (intro ensemble_statistics_columns(5)) simp
  ultimately show "column t (''CMIP6_'' @ m) = take (length (date t)) v"
    by (simp add: n column_def df1_def)
qed

text \<open>
  Claim C2.  Every value \<open>get_point_data\<close> returns is the raw gateway value minus
  273.15, for the historical series and for every model; 273.15 maps to 0 and 298.15
  to 25; and the table built from the data keeps these values as they are (a prefix
  of each series), so the conversion is applied once.
\<close>

theorem kelvin_to_celsius_once:
  assumes "get_point_data a gw lat lon n = (Inr d, n')"
  shows "(\<exists>raw. reduce_region gw (FilterBounds (filtered_gldas a) (Point lon lat)) (Point lon lat)
                  ''Tair_f_inst'' = Inr raw
              \<and> pd_gldas d = map (\<lambda>k. Some (k - 273.15)) raw)
       \<and> (\<forall>(m, v) \<in> set (pd_cmip6_models d).
            \<exists>raw. reduce_region gw
                    (FilterBounds (Filter (filtered_cmip6 a) (Filter_eq ''model'' m)) (Point lon lat))
                    (Point lon lat) ''tas'' = Inr raw
              \<and> v = map (\<lambda>k. Some (k - 273.15)) raw)
       \<and> monthly_reducer 273.15 = 0 \<and> monthly_reducer 298.15 = 25
       \<and> (\<forall>t. build_table a d = Inr t \<longrightarrow>
            column t ''GLDAS'' = take (length (date t)) (pd_gldas d)
            \<and> (\<forall>(m, v) \<in> set (pd_cmip6_models d).
                 m \<notin> {''mean'', ''std'', ''upper'', ''lower''} \<longrightarrow>
                 column t (''CMIP6_'' @ m) = take (length (date t)) v))"
proof -
  let ?f = "\<lambda>model. calculate_monthly_average
             (FilterBounds (Filter (filtered_cmip6 a) (Filter_eq ''model'' model)) (Point lon lat))
             (Point lon lat) ''tas''"
  from assms obtain models g ms where
    g: "getInfo gw (calculate_monthly_average (FilterBounds (filtered_gldas a) (Point lon lat)) (Point lon lat) ''Tair_f_inst'') (Suc n) = (Inr g, Suc (Suc n))"
    and items: "getInfo_items gw (cmip6_by_model a (Point lon lat) models) (Suc (Suc n)) = (Inr ms, n')"
    and d: "d = \<lparr>pd_gldas = g, pd_cmip6_models = ms,
          pd_metadata = \<lparr>md_lat = lat, md_lon = lon, md_scenario = scenario a, md_models = models\<rparr>\<rparr>"
    by (rule get_point_data_success)
  have 1: "\<exists>raw. reduce_region gw (FilterBounds (filtered_gldas a) (Point lon lat)) (Point lon lat)
                  ''Tair_f_inst'' = Inr raw
              \<and> pd_gldas d = map (\<lambda>k. Some (k - 273.15)) raw"
    using g d by (auto simp: getInfo_def calculate_monthly_average_def monthly_reducer_def split: sum.splits)
  have 2: "\<exists>raw. reduce_region gw
                    (FilterBounds (Filter (filtered_cmip6 a) (Filter_eq ''model'' m)) (Point lon lat))
                    (Point lon lat) ''tas'' = Inr raw
              \<and> v = map (\<lambda>k. Some (k - 273.15)) raw" if "(m, v) \<in> set (pd_cmip6_models d)" for m v
  proof -
    from that d have "(m, v) \<in> set ms" by simp
    from getInfo_items_values [OF items this] obtain c p b raw where
      e: "(m, Temperature_array c p b) \<in> set (cmip6_by_model a (Point lon lat) models)"
      and r: "reduce_region gw c p b = Inr raw" "v = map (\<lambda>k. Some (k - 273.15)) raw"
      by blast
    from e have "Temperature_array c p b = ?f m"
      unfolding cmip6_by_model_def using cmip6_by_model_entry_aux [of m _ ?f "[]" models] by auto
    then have "c = FilterBounds (Filter (filtered_cmip6 a) (Filter_eq ''model'' m)) (Point lon lat)"
      "p = Point lon lat" "b = ''tas''"
      by (simp_all add: calculate_monthly_average_def)
    with r show ?thesis by auto
  qed
  have 3: "monthly_reducer 273.15 = 0 \<and> monthly_reducer 298.15 = 25"
    by (simp add: monthly_reducer_def)
  have dist: "distinct (map fst (pd_cmip6_models d))"
    using get_point_data_models [OF assms] by blast
  have m2: "\<forall>(m, v) \<in> set (pd_cmip6_models d).
            \<exists>raw. reduce_region gw
                    (FilterBounds (Filter (filtered_cmip6 a) (Filter_eq ''model'' m)) (Point lon lat))
                    (Point lon lat) ''tas'' = Inr raw
              \<and> v = map (\<lambda>k. Some (k - 273.15)) raw"
    using 2 by blast
  have 4: "\<forall>t. build_table a d = Inr t \<longrightarrow>
            column t ''GLDAS'' = take (length (date t)) (pd_gldas d)
            \<and> (\<forall>(m, v) \<in> set (pd_cmip6_models d).
                 m \<notin> {''mean'', ''std'', ''upper'', ''lower''} \<longrightarrow>
                 column t (''CMIP6_'' @ m) = take (length (date t)) v)"
    using build_table_columns_kept [OF _ dist] by blast
  from 1 m2 3 4 show ?thesis by blast
qed

theorem kelvin_to_celsius_once_witness:
  "(\<exists>raw. reduce_region (stub_gateway 36)
             (FilterBounds (filtered_gldas (TemperatureAnalyzer 2010 2012 ''ssp585'')) (Point (- 105) 40))
             (Point (- 105) 40) ''Tair_f_inst'' = Inr raw
        \<and> pd_gldas (stub_point_data 36 40 (- 105) ''ssp585'') = map (\<lambda>k. Some (k - 273.15)) raw)
   \<and> pd_gldas (stub_point_data 36 40 (- 105) ''ssp585'') = replicate 36 (Some 0)
   \<and> column \<lparr>date = date_range 2010 2012,
          columns = [(''GLDAS'', replicate 36 (Some 0)),
                     (''CMIP6_model_a'', replicate 36 (Some 10)),
                     (''CMIP6_model_b'', replicate 36 (Some 20)),
                     (''CMIP6_mean'', replicate 36 (Some 15)),
                     (''CMIP6_std'', replicate 36 (Some (sqrt 50))),
                     (''CMIP6_upper'', replicate 36 (Some (15 + 2 * sqrt 50))),
                     (''CMIP6_lower'', replicate 36 (Some (15 - 2 * sqrt 50)))]\<rparr> ''GLDAS''
       = take 36 (pd_gldas (stub_point_data 36 40 (- 105) ''ssp585''))"
  using kelvin_to_celsius_once [OF stub_get_point_data [of 2010 2012 "''ssp585''" 36 40 "- 105" 0]]
    stub_table [of 36 "''ssp585''" 40 "- 105" "''ssp585''"]
  by (simp add: stub_point_data_def column_def)

section \<open>Short series and empty ensembles\<close>

lemma build_table_cases: "build_table a d = Inl ValueError \<or> (\<exists>t. build_table a d = Inr t)"
  unfolding build_table_eq by simp

text \<open>
  Claim C5, as the code has it.  The table is built exactly when every series (the
  historical one and each model's) has at least one value per month of the axis;
  a shorter series makes the construction raise \<open>ValueError\<close>, nothing is padded.
  When the table is built it has one row per month and a longer series is cut to
  the axis.
\<close>

theorem short_series_raise_value_error:
  "(build_table a d = Inl ValueError) =
     (\<exists>s \<in> set (pd_gldas d # map snd (pd_cmip6_models d)).
        length s < 12 * nat (end_year a - start_year a + 1))
   \<and> (\<forall>t. build_table a d = Inr t \<longrightarrow>
         length (date t) = 12 * nat (end_year a - start_year a + 1)
         \<and> column t ''GLDAS'' = take (12 * nat (end_year a - start_year a + 1)) (pd_gldas d)
         \<and> (\<forall>s \<in> set (pd_gldas d # map snd (pd_cmip6_models d)).
               12 * nat (end_year a - start_year a + 1) \<le> length s))"
proof -
  let ?n = "12 * nat (end_year a - start_year a + 1)"
  have n: "length (date_range (start_year a) (end_year a)) = ?n"
    by (rule length_date_range)
  have 1: "(build_table a d = Inl ValueError) =
     (\<exists>s \<in> set (pd_gldas d # map snd (pd_cmip6_models d)). length s < ?n)"
    unfolding build_table_eq n by (auto simp: not_le) force
  have 2: "length (date t) = ?n \<and> column t ''GLDAS'' = take ?n (pd_gldas d)
      \<and> (\<forall>s \<in> set (pd_gldas d # map snd (pd_cmip6_models d)). ?n \<le> length s)"
    if ok: "build_table a d = Inr t" for t
  proof -
    have "length (date t) = ?n"
      using date_build_table [OF ok] n by simp
    moreover have "column t ''GLDAS'' = column \<lparr>date = date_range (start_year a) (end_year a),
              columns = foldl (\<lambda>cs (m, s). AList.update (''CMIP6_'' @ m)
                            (take (length (date_range (start_year a) (end_year a))) s) cs)
                         [(''GLDAS'', take (length (date_range (start_year a) (end_year a))) (pd_gldas d))]
                         (pd_cmip6_models d)\<rparr> ''GLDAS''"
      unfolding build_table_InrD(3) [OF ok] by (rule ensemble_statistics_columns(5)) simp
    moreover have "map_of (foldl (\<lambda>cs (m, s). AList.update (''CMIP6_'' @ m) (take k s) cs) acc items) ''GLDAS''
        = map_of acc ''GLDAS''" for k acc and items :: "(string \<times> cell list) list"
      by (induction items arbitrary: acc) (auto simp: update_conv')
    moreover have "\<forall>s \<in> set (pd_gldas d # map snd (pd_cmip6_models d)). ?n \<le> length s"
      using build_table_InrD(1,2) [OF ok] unfolding n by auto
    ultimately show ?thesis by (simp add: column_def n)
  qed
  from 1 2 show ?thesis by blast
qed

theorem short_series_raise_value_error_witness:
  "build_table (TemperatureAnalyzer 2010 2012 ''ssp585'') (stub_point_data 35 40 (- 105) ''ssp585'')
     = Inl ValueError
   \<and> (\<exists>s \<in> set (pd_gldas (stub_point_data 35 40 (- 105) ''ssp585'')
                 # map snd (pd_cmip6_models (stub_point_data 35 40 (- 105) ''ssp585''))).
        length s < 12 * nat (2012 - 2010 + 1))
   \<and> length (date_range 2010 2012) = 12 * nat (2012 - 2010 + 1)"
  using short_series_raise_value_error [of "TemperatureAnalyzer 2010 2012 ''ssp585''"
     "stub_point_data 35 40 (- 105) ''ssp585''"]
    short_series_raise_value_error [of "TemperatureAnalyzer 2010 2012 ''ssp585''"
     "stub_point_data 36 40 (- 105) ''ssp585''"]
    stub_table [of 36 "''ssp585''" 40 "- 105" "''ssp585''"]
  by (simp add: stub_point_data_def TemperatureAnalyzer_def)

text \<open>
  Claim C5 as stated fails: with series of 35 values for the 36 months of 2010 to 2012
  no table with padded columns is produced, the construction raises \<open>ValueError\<close>.
\<close>

theorem short_series_not_padded:
  "build_table (TemperatureAnalyzer 2010 2012 ''ssp585'') (stub_point_data 35 40 (- 105) ''ssp585'')
     = Inl ValueError"
  unfolding build_table_eq
  by (simp add: TemperatureAnalyzer_def stub_point_data_def length_date_range_2010_2012)

lemma reduce_rows_no_columns: "reduce_rows f df [] = replicate (length (date df)) (f [])"
  by (simp add: reduce_rows_def row_def select_columns_def map_replicate_const)

lemma add_scaled_missing: "add_scaled (replicate n None) k (replicate n None) = replicate n None"
  by (simp add: add_scaled_def zip_replicate)

lemma empty_models_table:
  assumes "pd_cmip6_models d = []"
    and "length (date_range (start_year a) (end_year a)) \<le> length (pd_gldas d)"
  shows "build_table a d =
     Inr \<lparr>date = date_range (start_year a) (end_year a),
          columns =
            [(''GLDAS'', take (length (date_range (start_year a) (end_year a))) (pd_gldas d)),
             (''CMIP6_mean'', replicate (length (date_range (start_year a) (end_year a))) None),
             (''CMIP6_std'', replicate (length (date_range (start_year a) (end_year a))) None),
             (''CMIP6_upper'', replicate (length (date_range (start_year a) (end_year a))) None),
             (''CMIP6_lower'', replicate (length (date_range (start_year a) (end_year a))) None)]\<rparr>"
  unfolding build_table_eq using assms
  by (simp add: ensemble_statistics_def Let_def startswith_def reduce_rows_no_columns
      nanmean_def nanstd_def present_def column_assign add_scaled_missing date_assign)
    (simp add: assign_def)

lemma missing_row_statistics:
  assumes ok: "build_table a d = Inr t"
    and i: "i < length (date t)"
    and none: "\<forall>(m, s) \<in> set (pd_cmip6_models d). s ! i = None"
  shows "column t ''CMIP6_mean'' ! i = None \<and> column t ''CMIP6_std'' ! i = None
       \<and> column t ''CMIP6_upper'' ! i = None \<and> column t ''CMIP6_lower'' ! i = None"
proof -
  define dates where "dates = date_range (start_year a) (end_year a)"
  define n where "n = length dates"
  define cols1 where "cols1 = foldl (\<lambda>cs (m, s). AList.update (''CMIP6_'' @ m) (take n s) cs)
                       [(''GLDAS'', take n (pd_gldas d))] (pd_cmip6_models d)"
  define df1 where "df1 = \<lparr>date = dates, columns = cols1\<rparr>"
  define cc where "cc = filter (\<lambda>col. startswith col ''CMIP6_'') (map fst (columns df1))"
  define M where "M = reduce_rows nanmean df1 cc"
  define S where "S = reduce_rows nanstd (assign df1 ''CMIP6_mean'' M) cc"
  have t: "t = ensemble_statistics df1"
    using build_table_InrD(3) [OF ok] by (simp add: dates_def n_def cols1_def df1_def)
  have "date t = dates"
    using date_build_table [OF ok] by (simp add: dates_def)
  with i have i: "i < n" by (simp add: n_def)
  have dl: "length (date df1) = n" by (simp add: df1_def n_def)
  have cell: "column df1 c ! i = None" if "c \<in> set cc" for c
  proof -
    from that have c: "c \<in> fst ` set cols1" and sw: "startswith c ''CMIP6_''"
      by (auto simp: cc_def df1_def)
    then obtain v where v: "map_of cols1 c = Some v"
      by (metis domD dom_map_of_conv_image_fst)
    then have "(c, v) \<in> set cols1" by (rule map_of_SomeD)
    from model_columns_entry [OF this [unfolded cols1_def]] sw
    obtain m s where "(m, s) \<in> set (pd_cmip6_models d)" "v = take n s"
      by (auto simp: startswith_def)
    with none i have "v ! i = None" by auto
    with v show ?thesis by (simp add: column_def df1_def)
  qed
  have Mi: "M ! i = None"
    unfolding M_def using i dl cell by (simp add: nth_reduce_rows nanmean_all_None)
  have "column (assign df1 ''CMIP6_mean'' M) c ! i = None" if "c \<in> set cc" for c
    using cell [OF that] Mi by (simp add: column_assign)
  then have Si: "S ! i = None"
    unfolding S_def using i dl by (simp add: nth_reduce_rows nanstd_all_None date_assign)
  have lM: "length M = n" and lS: "length S = n"
    by (simp_all add: M_def S_def length_reduce_rows date_assign dl)
  have cm: "column t ''CMIP6_mean'' = M" and cs: "column t ''CMIP6_std'' = S"
    and cu: "column t ''CMIP6_upper'' = add_scaled M 2 S"
    and cl: "column t ''CMIP6_lower'' = add_scaled M (- 2) S"
    unfolding t M_def S_def cc_def by (rule ensemble_statistics_columns)+
  show ?thesis
    unfolding cm cs cu cl using i lM lS Mi Si by (simp add: nth_add_scaled)
qed

text \<open>
  Claim C6, as the code has it.  With an empty model mapping and a historical series
  that covers the month axis, the table has the historical column, no model column,
  and the four ensemble columns entirely missing; and in every table, a row in which
  all model values are missing has missing mean, std, upper and lower.
\<close>

theorem empty_models_missing_statistics:
  "(pd_cmip6_models d = [] \<and> length (date_range (start_year a) (end_year a)) \<le> length (pd_gldas d) \<longrightarrow>
     build_table a d =
       Inr \<lparr>date = date_range (start_year a) (end_year a),
            columns =
              [(''GLDAS'', take (length (date_range (start_year a) (end_year a))) (pd_gldas d)),
               (''CMIP6_mean'', replicate (length (date_range (start_year a) (end_year a))) None),
               (''CMIP6_std'', replicate (length (date_range (start_year a) (end_year a))) None),
               (''CMIP6_upper'', replicate (length (date_range (start_year a) (end_year a))) None),
               (''CMIP6_lower'', replicate (length (date_range (start_year a) (end_year a))) None)]\<rparr>)
   \<and> (\<forall>t i. build_table a d = Inr t \<and> i < length (date t)
            \<and> (\<forall>(m, s) \<in> set (pd_cmip6_models d). s ! i = None) \<longrightarrow>
         column t ''CMIP6_mean'' ! i = None \<and> column t ''CMIP6_std'' ! i = None
         \<and> column t ''CMIP6_upper'' ! i = None \<and> column t ''CMIP6_lower'' ! i = None)"
  using empty_models_table [of d a] missing_row_statistics [of a d] by blast

theorem empty_models_missing_statistics_witness:
  "build_table (TemperatureAnalyzer 2010 2012 ''ssp585'')
       \<lparr>pd_gldas = replicate 36 (Some 0), pd_cmip6_models = [],
        pd_metadata = \<lparr>md_lat = 40, md_lon = - 105, md_scenario = ''ssp585'', md_models = []\<rparr>\<rparr>
     = Inr \<lparr>date = date_range 2010 2012,
            columns =
              [(''GLDAS'', replicate 36 (Some 0)),
               (''CMIP6_mean'', replicate 36 None),
               (''CMIP6_std'', replicate 36 None),
               (''CMIP6_upper'', replicate 36 None),
               (''CMIP6_lower'', replicate 36 None)]\<rparr>
   \<and> column \<lparr>date = date_range 2010 2012,
            columns =
              [(''GLDAS'', replicate 36 (Some 0)),
               (''CMIP6_mean'', replicate 36 None),
               (''CMIP6_std'', replicate 36 None),
               (''CMIP6_upper'', replicate 36 None),
               (''CMIP6_lower'', replicate 36 None)]\<rparr> ''CMIP6_mean'' ! 0 = None"
  using empty_models_missing_statistics [of
       "\<lparr>pd_gldas = replicate 36 (Some 0), pd_cmip6_models = [],
        pd_metadata = \<lparr>md_lat = 40, md_lon = - 105, md_scenario = ''ssp585'', md_models = []\<rparr>\<rparr>"
       "TemperatureAnalyzer 2010 2012 ''ssp585''"]
  by (simp add: TemperatureAnalyzer_def length_date_range_2010_2012 column_def)

text \<open>
  Claim C6 as stated fails for a historical series shorter than the axis: with an
  empty model mapping and 24 historical values for 36 months the construction of the
  historical column raises \<open>ValueError\<close>.
\<close>

theorem empty_models_short_history_raises:
  "build_table (TemperatureAnalyzer 2010 2012 ''ssp585'')
       \<lparr>pd_gldas = replicate 24 (Some 0), pd_cmip6_models = [],
        pd_metadata = \<lparr>md_lat = 40, md_lon = - 105, md_scenario = ''ssp585'', md_models = []\<rparr>\<rparr>
     = Inl ValueError"
  unfolding build_table_eq
  by (simp add: TemperatureAnalyzer_def length_date_range_2010_2012)

section \<open>The end-to-end scenario and the ensemble statistics\<close>

lemma sqrt_50_neq_5: "sqrt 50 \<noteq> (5::real)"
proof
  assume "sqrt 50 = (5::real)"
  then have "(sqrt 50)\<^sup>2 = (5::real)\<^sup>2" by simp
  then show False by simp
qed

text \<open>
  Claim C3 as stated fails: in the scenario (2010 to 2012, constant 273.15 K history,
  two models at 283.15 K and 293.15 K) the table has 36 rows, not 24, and the
  ensemble std is \<open>sqrt 50\<close> (about 7.07, the sample formula), not 5; with only 24
  values per series the construction raises \<open>ValueError\<close>.
\<close>

theorem end_to_end_scenario_rows_and_std:
  "fst (get_point_data (TemperatureAnalyzer 2010 2012 ''ssp585'') (stub_gateway 36) 40 (- 105) 0)
     = Inr (stub_point_data 36 40 (- 105) ''ssp585'')
   \<and> map_sum id (\<lambda>t. (length (date t), column t ''CMIP6_std''))
        (build_table (TemperatureAnalyzer 2010 2012 ''ssp585'') (stub_point_data 36 40 (- 105) ''ssp585''))
     = Inr (36, replicate 36 (Some (sqrt 50)))
   \<and> sqrt 50 \<noteq> (5::real)
   \<and> build_table (TemperatureAnalyzer 2010 2012 ''ssp585'') (stub_point_data 24 40 (- 105) ''ssp585'')
     = Inl ValueError"
proof -
  have "build_table (TemperatureAnalyzer 2010 2012 ''ssp585'') (stub_point_data 24 40 (- 105) ''ssp585'')
     = Inl ValueError"
    unfolding build_table_eq
    by (simp add: TemperatureAnalyzer_def stub_point_data_def length_date_range_2010_2012)
  then show ?thesis
    by (simp add: stub_get_point_data stub_table column_def length_date_range_2010_2012 sqrt_50_neq_5)
qed

text \<open>
  Claim C3, as the code has it.  With at least 36 values per series the scenario
  gives a table of 36 rows whose historical column is constantly 0, ensemble mean
  constantly 15, ensemble std constantly \<open>sqrt 50\<close> and bounds
  \<open>15 \<plusminus> 2 * sqrt 50\<close>.
\<close>

theorem end_to_end_scenario:
  assumes "36 \<le> k"
  shows "get_point_data (TemperatureAnalyzer 2010 2012 ''ssp585'') (stub_gateway k) 40 (- 105) n
           = (Inr (stub_point_data k 40 (- 105) ''ssp585''), n + 4)
       \<and> build_table (TemperatureAnalyzer 2010 2012 ''ssp585'') (stub_point_data k 40 (- 105) ''ssp585'')
           = Inr \<lparr>date = date_range 2010 2012,
                  columns = [(''GLDAS'', replicate 36 (Some 0)),
                             (''CMIP6_model_a'', replicate 36 (Some 10)),
                             (''CMIP6_model_b'', replicate 36 (Some 20)),
                             (''CMIP6_mean'', replicate 36 (Some 15)),
                             (''CMIP6_std'', replicate 36 (Some (sqrt 50))),
                             (''CMIP6_upper'', replicate 36 (Some (15 + 2 * sqrt 50))),
                             (''CMIP6_lower'', replicate 36 (Some (15 - 2 * sqrt 50)))]\<rparr>
       \<and> length (date_range 2010 2012) = 36"
  using assms by (simp add: stub_get_point_data stub_table length_date_range_2010_2012)

theorem end_to_end_scenario_witness:
  "(36::nat) \<le> 36
   \<and> get_point_data (TemperatureAnalyzer 2010 2012 ''ssp585'') (stub_gateway 36) 40 (- 105) 0
           = (Inr (stub_point_data 36 40 (- 105) ''ssp585''), 4)
   \<and> length (date_range 2010 2012) = 36"
  using end_to_end_scenario [of 36 0] by simp

text \<open>
  Claim C4 at a document with a model named \<open>mean\<close> (values 10) and a second model
  (values 20): the assignment of the ensemble mean overwrites the model's column
  \<open>CMIP6_mean\<close>, and the std is then computed over the overwritten column and the
  second model, \<open>sqrt (25 / 2)\<close>, where the sample standard deviation of the model
  values 10 and 20 is \<open>sqrt 50\<close>.  For documents without such a model the
  statistics are those of the claim (lemma \<open>ensemble_rows\<close>).
\<close>

theorem std_reads_overwritten_mean_column:
  "map_sum id (\<lambda>t. (column t ''CMIP6_mean'', column t ''CMIP6_std''))
        (build_table (TemperatureAnalyzer 2010 2012 ''ssp585'') mean_named_data)
     = Inr (replicate 36 (Some 15), replicate 36 (Some (sqrt (25 / 2))))
   \<and> nanstd [Some 10, Some 20] = Some (sqrt 50)
   \<and> sqrt (25 / 2) \<noteq> sqrt 50"
proof -
  define df1 where "df1 = \<lparr>date = date_range 2010 2012,
          columns = [(''GLDAS'', replicate 36 (Some (0::real))),
                     (''CMIP6_mean'', replicate 36 (Some 10)),
                     (''CMIP6_other'', replicate 36 (Some 20))]\<rparr>"
  have b: "build_table (TemperatureAnalyzer 2010 2012 ''ssp585'') mean_named_data
      = Inr (ensemble_statistics df1)"
    unfolding build_table_eq
    by (simp add: TemperatureAnalyzer_def mean_named_data_def length_date_range_2010_2012 df1_def)
  have cc: "filter (\<lambda>col. startswith col ''CMIP6_'') (map fst (columns df1))
      = [''CMIP6_mean'', ''CMIP6_other'']"
    by (simp add: df1_def startswith_def)
  have M: "reduce_rows nanmean df1 [''CMIP6_mean'', ''CMIP6_other''] = replicate 36 (Some 15)"
    by (rule nth_equalityI)
      (simp_all add: length_reduce_rows nth_reduce_rows df1_def length_date_range_2010_2012
        column_def nanmean_pair)
  have S: "reduce_rows nanstd (assign df1 ''CMIP6_mean'' (replicate 36 (Some 15)))
       [''CMIP6_mean'', ''CMIP6_other''] = replicate 36 (Some (sqrt (25 / 2)))"
    by (rule nth_equalityI)
      (simp_all add: length_reduce_rows nth_reduce_rows df1_def length_date_range_2010_2012
        column_def nanstd_pair assign_def power2_eq_square)
  have "column (ensemble_statistics df1) ''CMIP6_mean'' = replicate 36 (Some 15)"
    "column (ensemble_statistics df1) ''CMIP6_std'' = replicate 36 (Some (sqrt (25 / 2)))"
    unfolding ensemble_statistics_columns(1,2) cc M S by simp_all
  moreover have "nanstd [Some 10, Some 20] = Some (sqrt 50)"
    by (simp add: nanstd_pair)
  ultimately show ?thesis
    by (simp add: b)
qed

section \<open>Repeated construction\<close>






section \<open>The shape of the key\<close>

lemma length_le_bytes: "length (le_bytes n v) = n"
  by (induction n arbitrary: v) auto

lemma le_bytes_bound: "b \<in> set (le_bytes n v) \<Longrightarrow> b < 256"
  by (induction n arbitrary: v) auto

lemma length_md5: "length (md5 msg) = 16"
  by (simp add: md5_def Let_def length_le_bytes split: prod.splits)

lemma md5_bound: "b \<in> set (md5 msg) \<Longrightarrow> b < 256"
  by (auto simp: md5_def Let_def split: prod.splits dest: le_bytes_bound)

lemma hex_digit_mem: "k < 16 \<Longrightarrow> hex_digit k \<in> set ''0123456789abcdef''"
  unfolding hex_digit_def by (rule nth_mem) simp

lemma length_hexdigest: "length (hexdigest bs) = 2 * length bs"
  by (induction bs) (simp_all add: hexdigest_def)

lemma set_hexdigest:
  assumes "\<forall>b \<in> set bs. b < 256"
  shows "set (hexdigest bs) \<subseteq> set ''0123456789abcdef''"
proof -
  define H where "H = set ''0123456789abcdef''"
  have "set (hexdigest bs) \<subseteq> H"
    using assms
  proof (induction bs)
    case Nil
    then show ?case by (simp add: hexdigest_def)
  next
    case (Cons b bs)
    have 1: "hex_digit (b div 16) \<in> H"
      unfolding H_def using Cons.prems by (intro hex_digit_mem) auto
    have 2: "hex_digit (b mod 16) \<in> H"
      unfolding H_def by (intro hex_digit_mem) auto
    have 3: "set (hexdigest bs) \<subseteq> H"
      using Cons by simp
    have "hexdigest (b # bs) = hex_digit (b div 16) # hex_digit (b mod 16) # hexdigest bs"
      by (simp add: hexdigest_def)
    then have "set (hexdigest (b # bs))
        = insert (hex_digit (b div 16)) (insert (hex_digit (b mod 16)) (set (hexdigest bs)))"
      by (simp only: list.set)
    with 1 2 3 show ?case by simp
  qed
  then show ?thesis by (simp only: H_def)
qed

lemma generate_cache_key_shape:
  "length (generate_cache_key lat lon sy ey sc) = 32"
  "set (generate_cache_key lat lon sy ey sc) \<subseteq> set ''0123456789abcdef''"
  by (simp_all add: generate_cache_key_def Let_def length_hexdigest length_md5 set_hexdigest md5_bound
      del: set_simps list.set)

section \<open>\<open>json.loads\<close> on hexadecimal digits and the cached retrieval\<close>

lemma number_value_kind:
  "(\<exists>i. number_value neg ip fr esign ex = JInt i) \<or> (\<exists>m e. number_value neg ip fr esign ex = JFloat m e)"
  by (simp add: number_value_def Let_def)

lemma if_None_SomeD: "(if c then None else Some (a, b)) = Some (v, r) \<Longrightarrow> v = a"
  by (simp split: if_split_asm)

lemma match_number_kind:
  assumes "match_number s = Some (v, r)"
  shows "(\<exists>i. v = JInt i) \<or> (\<exists>m e. v = JFloat m e)"
proof -
  from assms obtain neg ip fr esign ex where "v = number_value neg ip fr esign ex"
    unfolding match_number_def Let_def by (blast dest: if_None_SomeD)
  then show ?thesis using number_value_kind by simp
qed

lemma hex_char_cases:
  assumes "c \<in> set ''0123456789abcdef''"
  shows "c \<noteq> CHR 0x22" "c \<noteq> CHR ''{''" "c \<noteq> CHR ''[''" "c \<noteq> CHR ''n''" "c \<noteq> CHR ''t''"
    "c \<noteq> CHR ''N''" "c \<noteq> CHR ''I''" "c \<noteq> CHR ''-''" "\<not> is_ws c"
  using assms by (auto simp: is_ws_def)

lemma scan_once_hex:
  assumes c: "c \<in> set ''0123456789abcdef''" and r: "set r \<subseteq> set ''0123456789abcdef''"
  shows "scan_once (Suc n) (c # r) =
           (case match_number (c # r) of Some res \<Rightarrow> Inr res | None \<Rightarrow> Inl JSONDecodeError)"
proof -
  note h = hex_char_cases [OF c]
  have f: "take 5 (c # r) \<noteq> ''false''"
  proof
    assume "take 5 (c # r) = ''false''"
    then have "take 4 r = ''alse''" by simp
    then have "CHR ''l'' \<in> set (take 4 r)" by simp
    then have "CHR ''l'' \<in> set r" by (rule in_set_takeD)
    with r show False by auto
  qed
  have "take 4 (c # r) \<noteq> ''null''" "take 4 (c # r) \<noteq> ''true''"
    "take 3 (c # r) \<noteq> ''NaN''" "take 8 (c # r) \<noteq> ''Infinity''" "take 9 (c # r) \<noteq> ''-Infinity''"
    using h by auto
  with f h show ?thesis
    by (simp only: scan_once.simps list.case if_False split: option.splits)
qed

lemma json_loads_hex:
  assumes "s \<noteq> []" and "set s \<subseteq> set ''0123456789abcdef''"
  shows "json_loads s = Inl JSONDecodeError \<or> (\<exists>i. json_loads s = Inr (JInt i))
       \<or> (\<exists>m e. json_loads s = Inr (JFloat m e))"
proof -
  from assms obtain c r where s: "s = c # r" and c: "c \<in> set ''0123456789abcdef''"
    and r: "set r \<subseteq> set ''0123456789abcdef''"
    by (cases s) auto
  have ws: "skip_ws s = s"
    using hex_char_cases(9) [OF c] by (simp add: skip_ws_def s)
  have fuel: "2 * length s + 2 = Suc (2 * length r + 3)"
    by (simp add: s)
  have so: "scan_once (2 * length s + 2) (skip_ws s) =
           (case match_number s of Some res \<Rightarrow> Inr res | None \<Rightarrow> Inl JSONDecodeError)"
    unfolding ws fuel unfolding s by (rule scan_once_hex [OF c r])
  show ?thesis
  proof (cases "match_number s")
    case None
    with so show ?thesis by (simp add: json_loads_def)
  next
    case (Some res)
    obtain v rest where res: "res = (v, rest)" by (cases res)
    from match_number_kind [of s v rest] Some res
    have "(\<exists>i. v = JInt i) \<or> (\<exists>m e. v = JFloat m e)" by simp
    with so Some res show ?thesis
      by (auto simp: json_loads_def)
  qed
qed

lemma get_point_data_cached_not_object:
  assumes "map_of cache k = None"
    and "json_loads k = Inl JSONDecodeError \<or> (\<exists>i. json_loads k = Inr (JInt i))
       \<or> (\<exists>m e. json_loads k = Inr (JFloat m e))"
  shows "get_point_data_cached a gw k cache n = (Inl JSONDecodeError, cache, n)
       \<or> get_point_data_cached a gw k cache n = (Inl TypeError, cache, n)"
  using assms by (auto simp: get_point_data_cached_def subscript_def)

lemma cache_keys_are_objects:
  assumes inv: "\<forall>(k, r) \<in> set cache. \<exists>pairs. json_loads k = Inr (JObject pairs)"
    and k: "json_loads k = Inl JSONDecodeError \<or> (\<exists>i. json_loads k = Inr (JInt i))
       \<or> (\<exists>m e. json_loads k = Inr (JFloat m e))"
  shows "map_of cache k = None"
proof (cases "map_of cache k")
  case None
  then show ?thesis .
next
  case (Some r)
  then have "(k, r) \<in> set cache" by (rule map_of_SomeD)
  with inv obtain pairs where "json_loads k = Inr (JObject pairs)" by auto
  with k show ?thesis by auto
qed

lemma get_point_data_cached_hit:
  "map_of cache k = Some r \<Longrightarrow>
   get_point_data_cached a gw k cache n = (Inr r, (k, r) # AList.delete k cache, n)"
  by (simp add: get_point_data_cached_def)

lemma get_point_data_cached_success:
  assumes "get_point_data_cached a gw k cache n = (Inr r, cache', n')"
  shows "map_of cache' k = Some r"
    and "map_of cache k = None \<Longrightarrow> \<exists>pairs. json_loads k = Inr (JObject pairs)"
proof -
  show "map_of cache' k = Some r"
    using assms
    by (auto simp: get_point_data_cached_def Let_def
        split: option.splits sum.splits prod.splits)
  show "\<exists>pairs. json_loads k = Inr (JObject pairs)" if "map_of cache k = None"
    using assms that
    by (auto simp: get_point_data_cached_def Let_def subscript_def
        split: option.splits sum.splits prod.splits json.splits)
qed

lemma get_point_data_cached_second_call:
  assumes "get_point_data_cached a gw k cache n = (Inr r, cache', n')"
  shows "get_point_data_cached a gw k cache' n' = (Inr r, (k, r) # AList.delete k cache', n')"
  using get_point_data_cached_success(1) [OF assms] by (rule get_point_data_cached_hit)

lemma get_point_data_cached_keeps_objects:
  assumes inv: "\<forall>(k, r) \<in> set cache. \<exists>pairs. json_loads k = Inr (JObject pairs)"
    and call: "get_point_data_cached a gw k cache n = (res, cache', n')"
  shows "\<forall>(k, r) \<in> set cache'. \<exists>pairs. json_loads k = Inr (JObject pairs)"
proof (cases "map_of cache k")
  case (Some r)
  with call have c: "cache' = (k, r) # AList.delete k cache"
    by (simp add: get_point_data_cached_hit)
  from Some have "(k, r) \<in> set cache" by (rule map_of_SomeD)
  moreover have "set (AList.delete k cache) \<subseteq> set cache"
    by (auto simp: AList.delete_eq)
  ultimately show ?thesis using inv unfolding c by auto
next
  case None
  show ?thesis
  proof (cases res)
    case (Inl err)
    with call None have "cache' = cache"
      by (auto simp: get_point_data_cached_def Let_def split: sum.splits prod.splits)
    with inv show ?thesis by simp
  next
    case (Inr r)
    with call have call': "get_point_data_cached a gw k cache n = (Inr r, cache', n')" by simp
    from get_point_data_cached_success(2) [OF call' None]
    obtain pairs where p: "json_loads k = Inr (JObject pairs)" by blast
    from call' None have "cache' = take 128 ((k, r) # cache)"
      by (auto simp: get_point_data_cached_def Let_def split: sum.splits prod.splits)
    then have "set cache' \<subseteq> insert (k, r) (set cache)"
      using set_take_subset [of 128 "(k, r) # cache"] by simp
    with inv p show ?thesis by auto
  qed
qed

section \<open>A key made of decimal digits\<close>

text \<open>
  The digest is computed step by step: the bytes of the JSON text, the padded message,
  the four rounds of each of its two blocks.
\<close>

lemmas md5_eval = add32_def not32_def rotl32_def md5_F_def md5_G_def md5_H_def md5_I_def
  md5_round1_def md5_round2_def md5_round3_def md5_round4_def

lemma le_bytes_4:
  "le_bytes 4 v = [v mod 256, v div 256 mod 256, v div 256 div 256 mod 256,
                   v div 256 div 256 div 256 mod 256]"
proof -
  have "(4::nat) = Suc (Suc (Suc (Suc 0)))" by simp
  then show ?thesis by (simp only: le_bytes.simps)
qed

lemma le_bytes_8:
  "le_bytes 8 v = le_bytes 4 v @ le_bytes 4 (v div 256 div 256 div 256 div 256)"
proof -
  have "(8::nat) = Suc (Suc (Suc (Suc (Suc (Suc (Suc (Suc 0)))))))" by simp
  then show ?thesis by (simp only: le_bytes.simps le_bytes_4 append.simps)
qed

lemma md5_blocks_2:
  "md5_blocks 2 st bs = md5_block (md5_block st (take 64 bs)) (take 64 (drop 64 bs))"
proof -
  have "(2::nat) = Suc (Suc 0)" by simp
  then show ?thesis by (simp only: md5_blocks.simps)
qed

lemma digits_key_bytes:
  "map of_char (json_dumps_params (round4 61.4) (round4 (- 105.8)) 2010 2050 ''ssp585'') =
     ([123, 34, 101, 110, 100, 95, 121, 101, 97, 114, 34, 58, 32, 50, 48, 53,
       48, 44, 32, 34, 108, 97, 116, 34, 58, 32, 54, 49, 46, 52, 44, 32,
       34, 108, 111, 110, 34, 58, 32, 45, 49, 48, 53, 46, 56, 44, 32, 34,
       115, 99, 101, 110, 97, 114, 105, 111, 34, 58, 32, 34, 115, 115, 112, 53,
       56, 53, 34, 44, 32, 34, 115, 116, 97, 114, 116, 95, 121, 101, 97, 114,
       34, 58, 32, 50, 48, 49, 48, 125] :: nat list)"
  by (simp add: json_dumps_params_def json_string_def escape_char_def float_repr_def int_repr_def
      round4_def round_half_even_def Let_def digits.simps digit_char_def)

lemma digits_key_pad:
  "md5_pad [123, 34, 101, 110, 100, 95, 121, 101, 97, 114, 34, 58, 32, 50, 48, 53,
       48, 44, 32, 34, 108, 97, 116, 34, 58, 32, 54, 49, 46, 52, 44, 32,
       34, 108, 111, 110, 34, 58, 32, 45, 49, 48, 53, 46, 56, 44, 32, 34,
       115, 99, 101, 110, 97, 114, 105, 111, 34, 58, 32, 34, 115, 115, 112, 53,
       56, 53, 34, 44, 32, 34, 115, 116, 97, 114, 116, 95, 121, 101, 97, 114,
       34, 58, 32, 50, 48, 49, 48, 125] =
     [123, 34, 101, 110, 100, 95, 121, 101, 97, 114, 34, 58, 32, 50, 48, 53,
       48, 44, 32, 34, 108, 97, 116, 34, 58, 32, 54, 49, 46, 52, 44, 32,
       34, 108, 111, 110, 34, 58, 32, 45, 49, 48, 53, 46, 56, 44, 32, 34,
       115, 99, 101, 110, 97, 114, 105, 111, 34, 58, 32, 34, 115, 115, 112, 53,
       56, 53, 34, 44, 32, 34, 115, 116, 97, 114, 116, 95, 121, 101, 97, 114,
       34, 58, 32, 50, 48, 49, 48, 125, 128, 0, 0, 0, 0, 0, 0, 0,
       0, 0, 0, 0, 0, 0, 0, 0, 0, 0, 0, 0, 0, 0, 0, 0,
       0, 0, 0, 0, 0, 0, 0, 0, 192, 2, 0, 0, 0, 0, 0, 0]"
proof -
  have z: "replicate 31 (0::nat) = [0, 0, 0, 0, 0, 0, 0, 0, 0, 0, 0, 0, 0, 0, 0, 0,
       0, 0, 0, 0, 0, 0, 0, 0, 0, 0, 0, 0, 0, 0, 0]"
    by (simp add: numeral_eq_Suc)
  show ?thesis
    by (simp add: md5_pad_def le_bytes_8 le_bytes_4 z)
qed

lemma digits_key_words1:
  "md5_words [123, 34, 101, 110, 100, 95, 121, 101, 97, 114, 34, 58, 32, 50, 48, 53,
       48, 44, 32, 34, 108, 97, 116, 34, 58, 32, 54, 49, 46, 52, 44, 32,
       34, 108, 111, 110, 34, 58, 32, 45, 49, 48, 53, 46, 56, 44, 32, 34,
       115, 99, 101, 110, 97, 114, 105, 111, 34, 58, 32, 34, 115, 115, 112, 53] =
     [1852121723, 1702453092, 975336033, 892351008, 572533808, 578052460, 825630778, 539767854, 1852795938, 757086754, 775237681, 572533816, 1852138355, 1869181537, 572537378, 896562035]"
  by simp

lemma digits_key_block1_round1:
  "md5_steps md5_F [1852121723, 1702453092, 975336033, 892351008, 572533808, 578052460, 825630778, 539767854, 1852795938, 757086754, 775237681, 572533816, 1852138355, 1869181537, 572537378, 896562035]
     md5_round1 (1732584193, 4023233417, 2562383102, 271733878) =
     (574665097, 3371321658, 1276805026, 3507867267)"
  by (simp add: md5_eval)

lemma digits_key_block1_round2:
  "md5_steps md5_G [1852121723, 1702453092, 975336033, 892351008, 572533808, 578052460, 825630778, 539767854, 1852795938, 757086754, 775237681, 572533816, 1852138355, 1869181537, 572537378, 896562035]
     md5_round2 (574665097, 3371321658, 1276805026, 3507867267) =
     (4126074454, 2558726459, 2468839046, 1882369366)"
  by (simp add: md5_eval)

lemma digits_key_block1_round3:
  "md5_steps md5_H [1852121723, 1702453092, 975336033, 892351008, 572533808, 578052460, 825630778, 539767854, 1852795938, 757086754, 775237681, 572533816, 1852138355, 1869181537, 572537378, 896562035]
     md5_round3 (4126074454, 2558726459, 2468839046, 1882369366) =
     (202280038, 1428883241, 3645736541, 3468779213)"
  by (simp add: md5_eval)

lemma digits_key_block1_round4:
  "md5_steps md5_I [1852121723, 1702453092, 975336033, 892351008, 572533808, 578052460, 825630778, 539767854, 1852795938, 757086754, 775237681, 572533816, 1852138355, 1869181537, 572537378, 896562035]
     md5_round4 (202280038, 1428883241, 3645736541, 3468779213) =
     (2736145585, 3379020569, 3125120267, 4201656427)"
  by (simp add: md5_eval)

lemma digits_key_block1:
  "md5_block (1732584193, 4023233417, 2562383102, 271733878) [123, 34, 101, 110, 100, 95, 121, 101, 97, 114, 34, 58, 32, 50, 48, 53,
       48, 44, 32, 34, 108, 97, 116, 34, 58, 32, 54, 49, 46, 52, 44, 32,
       34, 108, 111, 110, 34, 58, 32, 45, 49, 48, 53, 46, 56, 44, 32, 34,
       115, 99, 101, 110, 97, 114, 105, 111, 34, 58, 32, 34, 115, 115, 112, 53] =
     (173762482, 3107286690, 1392536073, 178423009)"
  by (simp only: md5_block.simps Let_def digits_key_words1
      digits_key_block1_round1 digits_key_block1_round2 digits_key_block1_round3 digits_key_block1_round4 prod.case)
    (simp add: add32_def)

lemma digits_key_words2:
  "md5_words [56, 53, 34, 44, 32, 34, 115, 116, 97, 114, 116, 95, 121, 101, 97, 114,
       34, 58, 32, 50, 48, 49, 48, 125, 128, 0, 0, 0, 0, 0, 0, 0,
       0, 0, 0, 0, 0, 0, 0, 0, 0, 0, 0, 0, 0, 0, 0, 0,
       0, 0, 0, 0, 0, 0, 0, 0, 192, 2, 0, 0, 0, 0, 0, 0] =
     [740439352, 1953702432, 1601466977, 1918985593, 840972834, 2100310320, 128, 0, 0, 0, 0, 0, 0, 0, 704, 0]"
  by simp

lemma digits_key_block2_round1:
  "md5_steps md5_F [740439352, 1953702432, 1601466977, 1918985593, 840972834, 2100310320, 128, 0, 0, 0, 0, 0, 0, 0, 704, 0]
     md5_round1 (173762482, 3107286690, 1392536073, 178423009) =
     (1978637448, 3848623676, 233868809, 3522897072)"
  by (simp add: md5_eval)

lemma digits_key_block2_round2:
  "md5_steps md5_G [740439352, 1953702432, 1601466977, 1918985593, 840972834, 2100310320, 128, 0, 0, 0, 0, 0, 0, 0, 704, 0]
     md5_round2 (1978637448, 3848623676, 233868809, 3522897072) =
     (726270399, 1061408565, 4133528457, 3910046715)"
  by (simp add: md5_eval)

lemma digits_key_block2_round3:
  "md5_steps md5_H [740439352, 1953702432, 1601466977, 1918985593, 840972834, 2100310320, 128, 0, 0, 0, 0, 0, 0, 0, 704, 0]
     md5_round3 (726270399, 1061408565, 4133528457, 3910046715) =
     (3001447613, 4125336944, 3059163798, 1432493113)"
  by (simp add: md5_eval)

lemma digits_key_block2_round4:
  "md5_steps md5_I [740439352, 1953702432, 1601466977, 1918985593, 840972834, 2100310320, 128, 0, 0, 0, 0, 0, 0, 0, 704, 0]
     md5_round4 (3001447613, 4125336944, 3059163798, 1432493113) =
     (1000661365, 1509892782, 259563143, 1725083059)"
  by (simp add: md5_eval)

lemma digits_key_block2:
  "md5_block (173762482, 3107286690, 1392536073, 178423009) [56, 53, 34, 44, 32, 34, 115, 116, 97, 114, 116, 95, 121, 101, 97, 114,
       34, 58, 32, 50, 48, 49, 48, 125, 128, 0, 0, 0, 0, 0, 0, 0,
       0, 0, 0, 0, 0, 0, 0, 0, 0, 0, 0, 0, 0, 0, 0, 0,
       0, 0, 0, 0, 0, 0, 0, 0, 192, 2, 0, 0, 0, 0, 0, 0] =
     (1174423847, 322212176, 1652099216, 1903506068)"
  by (simp only: md5_block.simps Let_def digits_key_words2
      digits_key_block2_round1 digits_key_block2_round2 digits_key_block2_round3 digits_key_block2_round4 prod.case)
    (simp add: add32_def)

lemma digits_key_md5:
  "md5 [123, 34, 101, 110, 100, 95, 121, 101, 97, 114, 34, 58, 32, 50, 48, 53,
       48, 44, 32, 34, 108, 97, 116, 34, 58, 32, 54, 49, 46, 52, 44, 32,
       34, 108, 111, 110, 34, 58, 32, 45, 49, 48, 53, 46, 56, 44, 32, 34,
       115, 99, 101, 110, 97, 114, 105, 111, 34, 58, 32, 34, 115, 115, 112, 53,
       56, 53, 34, 44, 32, 34, 115, 116, 97, 114, 116, 95, 121, 101, 97, 114,
       34, 58, 32, 50, 48, 49, 48, 125] =
     [39, 73, 0, 70, 80, 145, 52, 19, 144, 8, 121, 98, 148, 50, 117, 113]"
proof -
  have n: "length [123, 34, 101, 110, 100, 95, 121, 101, 97, 114, 34, 58, 32, 50, 48, 53,
       48, 44, 32, 34, 108, 97, 116, 34, 58, 32, 54, 49, 46, 52, 44, 32,
       34, 108, 111, 110, 34, 58, 32, 45, 49, 48, 53, 46, 56, 44, 32, 34,
       115, 99, 101, 110, 97, 114, 105, 111, 34, 58, 32, 34, 115, 115, 112, 53,
       56, 53, 34, 44, 32, 34, 115, 116, 97, 114, 116, 95, 121, 101, 97, 114,
       34, 58, 32, 50, 48, 49, 48, 125, 128, 0, 0, 0, 0, 0, 0, 0,
       0, 0, 0, 0, 0, 0, 0, 0, 0, 0, 0, 0, 0, 0, 0, 0,
       0, 0, 0, 0, 0, 0, 0, 0, 192, 2, 0, 0, 0, 0, 0, 0] div 64 = 2"
    by simp
  have b1: "take 64 [123, 34, 101, 110, 100, 95, 121, 101, 97, 114, 34, 58, 32, 50, 48, 53,
       48, 44, 32, 34, 108, 97, 116, 34, 58, 32, 54, 49, 46, 52, 44, 32,
       34, 108, 111, 110, 34, 58, 32, 45, 49, 48, 53, 46, 56, 44, 32, 34,
       115, 99, 101, 110, 97, 114, 105, 111, 34, 58, 32, 34, 115, 115, 112, 53,
       56, 53, 34, 44, 32, 34, 115, 116, 97, 114, 116, 95, 121, 101, 97, 114,
       34, 58, 32, 50, 48, 49, 48, 125, 128, 0, 0, 0, 0, 0, 0, 0,
       0, 0, 0, 0, 0, 0, 0, 0, 0, 0, 0, 0, 0, 0, 0, 0,
       0, 0, 0, 0, 0, 0, 0, 0, 192, 2, 0, 0, 0, 0, 0, 0] =
     [123, 34, 101, 110, 100, 95, 121, 101, 97, 114, 34, 58, 32, 50, 48, 53,
       48, 44, 32, 34, 108, 97, 116, 34, 58, 32, 54, 49, 46, 52, 44, 32,
       34, 108, 111, 110, 34, 58, 32, 45, 49, 48, 53, 46, 56, 44, 32, 34,
       115, 99, 101, 110, 97, 114, 105, 111, 34, 58, 32, 34, 115, 115, 112, 53]"
    by simp
  have b2: "take 64 (drop 64 [123, 34, 101, 110, 100, 95, 121, 101, 97, 114, 34, 58, 32, 50, 48, 53,
       48, 44, 32, 34, 108, 97, 116, 34, 58, 32, 54, 49, 46, 52, 44, 32,
       34, 108, 111, 110, 34, 58, 32, 45, 49, 48, 53, 46, 56, 44, 32, 34,
       115, 99, 101, 110, 97, 114, 105, 111, 34, 58, 32, 34, 115, 115, 112, 53,
       56, 53, 34, 44, 32, 34, 115, 116, 97, 114, 116, 95, 121, 101, 97, 114,
       34, 58, 32, 50, 48, 49, 48, 125, 128, 0, 0, 0, 0, 0, 0, 0,
       0, 0, 0, 0, 0, 0, 0, 0, 0, 0, 0, 0, 0, 0, 0, 0,
       0, 0, 0, 0, 0, 0, 0, 0, 192, 2, 0, 0, 0, 0, 0, 0]) =
     [56, 53, 34, 44, 32, 34, 115, 116, 97, 114, 116, 95, 121, 101, 97, 114,
       34, 58, 32, 50, 48, 49, 48, 125, 128, 0, 0, 0, 0, 0, 0, 0,
       0, 0, 0, 0, 0, 0, 0, 0, 0, 0, 0, 0, 0, 0, 0, 0,
       0, 0, 0, 0, 0, 0, 0, 0, 192, 2, 0, 0, 0, 0, 0, 0]"
    by simp
  show ?thesis
    unfolding md5_def digits_key_pad Let_def n md5_blocks_2 b1 b2 digits_key_block1 digits_key_block2 prod.case le_bytes_4
    by simp
qed

lemma digits_key_key:
  "generate_cache_key 61.4 (- 105.8) 2010 2050 ''ssp585'' = ''27490046509134139008796294327571''"
  unfolding generate_cache_key_def Let_def digits_key_bytes digits_key_md5
  by (simp add: hexdigest_def hex_digit_def)

section \<open>The fingerprint and the cached path\<close>

lemma json_loads_digits_key:
  "json_loads ''27490046509134139008796294327571'' = Inr (JInt 27490046509134139008796294327571)"
proof -
  have m: "match_number ''27490046509134139008796294327571''
      = Some (JInt 27490046509134139008796294327571, [])"
    by (simp add: match_number_def number_value_def Let_def is_digit_def nat_of_digits_def)
  have f: "2 * length ''27490046509134139008796294327571'' + 2 = Suc 65"
    by simp
  have "scan_once (Suc 65) ''27490046509134139008796294327571''
      = (case match_number ''27490046509134139008796294327571'' of
           Some res \<Rightarrow> Inr res | None \<Rightarrow> Inl JSONDecodeError)"
    by (rule scan_once_hex) simp_all
  then show ?thesis
    unfolding json_loads_def f by (simp add: m skip_ws_def is_ws_def)
qed

text \<open>
  Claim C9 as stated fails.  A hex digest can be valid JSON: one made of decimal
  digits only is a number.  For latitude 61.4, longitude -105.8, the years 2010 and
  2050 and scenario \<open>ssp585\<close> the key is such a digest; \<open>json.loads\<close> returns an
  \<open>int\<close>, and the call raises \<open>TypeError\<close> at \<open>params['lon']\<close>, not a
  JSON-decoding error (still before any remote query).
\<close>

theorem fingerprint_key_type_error:
  "generate_cache_key 61.4 (- 105.8) 2010 2050 ''ssp585'' = ''27490046509134139008796294327571''
   \<and> json_loads ''27490046509134139008796294327571'' = Inr (JInt 27490046509134139008796294327571)
   \<and> get_point_data_cached (TemperatureAnalyzer 2010 2050 ''ssp585'') (stub_gateway 36)
        (generate_cache_key 61.4 (- 105.8) 2010 2050 ''ssp585'') [] 0
      = (Inl TypeError, [], 0)"
  unfolding digits_key_key
  by (simp add: json_loads_digits_key get_point_data_cached_def subscript_def)

text \<open>
  Claim C9, as the code has it.  Whatever the store holds from earlier successful
  calls (their keys decoded to objects), \<open>get_point_data_cached\<close> called with a key
  produced by \<open>_generate_cache_key\<close> raises \<open>JSONDecodeError\<close> or \<open>TypeError\<close>,
  issues no remote query and stores nothing.
\<close>

theorem fingerprint_key_always_raises:
  assumes "\<forall>(k, r) \<in> set cache. \<exists>pairs. json_loads k = Inr (JObject pairs)"
  shows "get_point_data_cached a gw (generate_cache_key lat lon sy ey sc) cache n
           = (Inl JSONDecodeError, cache, n)
       \<or> get_point_data_cached a gw (generate_cache_key lat lon sy ey sc) cache n
           = (Inl TypeError, cache, n)"
proof -
  let ?k = "generate_cache_key lat lon sy ey sc"
  have "?k \<noteq> []"
    using generate_cache_key_shape(1) [of lat lon sy ey sc] by auto
  then have j: "json_loads ?k = Inl JSONDecodeError \<or> (\<exists>i. json_loads ?k = Inr (JInt i))
       \<or> (\<exists>m e. json_loads ?k = Inr (JFloat m e))"
    by (rule json_loads_hex) (rule generate_cache_key_shape(2))
  from cache_keys_are_objects [OF assms j] have "map_of cache ?k = None" .
  then show ?thesis using j by (rule get_point_data_cached_not_object)
qed

theorem fingerprint_key_always_raises_witness:
  "get_point_data_cached (TemperatureAnalyzer 2010 2012 ''ssp585'') (stub_gateway 36)
        (generate_cache_key 40 (- 105) 2010 2012 ''ssp585'') [] 0
      = (Inl JSONDecodeError, [], 0)
   \<or> get_point_data_cached (TemperatureAnalyzer 2010 2012 ''ssp585'') (stub_gateway 36)
        (generate_cache_key 40 (- 105) 2010 2012 ''ssp585'') [] 0
      = (Inl TypeError, [], 0)"
proof -
  have "\<forall>(k, r) \<in> set ([] :: (string \<times> cached_point_data) list).
      \<exists>pairs. json_loads k = Inr (JObject pairs)"
    by simp
  then show ?thesis
    by (rule fingerprint_key_always_raises)
qed





end
